theory Spec2Isabelle
  imports Complex_Main
begin

section \<open>Values, errors and data frames\<close>

text \<open>
  The program (\<^verbatim>\<open>src/app.py\<close>) keeps its data in pandas data frames built from the
  records of two worksheets. A cell of a frame is a number, a text, a timestamp or a
  missing value (pandas' NaN and NaT). Python floats are idealised as reals: sums are
  exact and there is no infinity. A calendar date is its day number
  (\<^verbatim>\<open>date.toordinal()\<close>), so \<^verbatim>\<open>end_date - timedelta(days=6)\<close> is a subtraction of 6.
  A timestamp \<open>Stamp d t\<close> lies on day \<open>d\<close> at \<open>t\<close> units after midnight.
\<close>

type_synonym date = int

datatype cell = Num real | Str string | Stamp date nat | Missing

datatype error =
  KeyError | AttributeError | TypeError | ValueError | StoreError | EstimatorError | JSONDecodeError
  | ZeroDivisionError

type_synonym row = "string \<rightharpoonup> cell"

record dataframe =
  columns :: "string list"
  rows :: "row list"

text \<open>\<^verbatim>\<open>pd.DataFrame()\<close>: no columns, no rows.\<close>

definition DataFrame_empty :: dataframe where
  "DataFrame_empty = \<lparr>columns = [], rows = []\<rparr>"

text \<open>\<^verbatim>\<open>df.empty\<close>: some axis has length 0.\<close>

definition df_empty :: "dataframe \<Rightarrow> bool" where
  "df_empty df = (columns df = [] \<or> rows df = [])"

text \<open>
  The cell of a row under a column label. A record that lacks a key of the frame holds
  NaN there; a label that is not a column of the frame is never read by the model without
  a check of \<^verbatim>\<open>col in df.columns\<close> first (pandas raises KeyError).
\<close>

definition cell_at :: "dataframe \<Rightarrow> row \<Rightarrow> string \<Rightarrow> cell" where
  "cell_at df r c =
     (if c \<in> set (columns df) then (case r c of Some v \<Rightarrow> v | None \<Rightarrow> Missing) else Missing)"

text \<open>
  \<^verbatim>\<open>series.dt.date\<close> of one cell: the calendar day of a timestamp, nothing for NaT.
  The accessor \<^verbatim>\<open>.dt\<close> exists only on a datetime column: every cell a timestamp or NaT.
\<close>

fun dt_date :: "cell \<Rightarrow> date option" where
  "dt_date (Stamp d t) = Some d"
| "dt_date c = None"

fun is_datetime :: "cell \<Rightarrow> bool" where
  "is_datetime (Stamp d t) = True"
| "is_datetime Missing = True"
| "is_datetime c = False"

definition datetimelike :: "dataframe \<Rightarrow> string \<Rightarrow> bool" where
  "datetimelike df c = list_all (\<lambda>r. is_datetime (cell_at df r c)) (rows df)"

text \<open>
  \<^verbatim>\<open>pd.to_numeric(series, errors='coerce')\<close> on one cell, then \<^verbatim>\<open>.fillna(0)\<close>. The reader
  of numeric text is pandas' own and is a parameter \<open>num_of_str\<close>; text it rejects, a
  timestamp and NaN all become NaN, which \<open>fillna0\<close> turns into 0.
\<close>

fun to_numeric :: "(string \<Rightarrow> real option) \<Rightarrow> cell \<Rightarrow> real option" where
  "to_numeric num_of_str (Num x) = Some x"
| "to_numeric num_of_str (Str s) = num_of_str s"
| "to_numeric num_of_str (Stamp d t) = None"
| "to_numeric num_of_str Missing = None"

fun fillna0 :: "real option \<Rightarrow> real" where
  "fillna0 None = 0"
| "fillna0 (Some x) = x"

text \<open>
  \<^verbatim>\<open>series.sum()\<close>: NaN is skipped, the empty sum is 0, and a column that holds text or
  a timestamp cannot be added up (Python's \<^verbatim>\<open>+\<close> on a number and a string raises
  TypeError).
\<close>

fun series_sum :: "cell list \<Rightarrow> error + real" where
  "series_sum [] = Inr 0"
| "series_sum (Num x # cs) = (case series_sum cs of Inl e \<Rightarrow> Inl e | Inr s \<Rightarrow> Inr (x + s))"
| "series_sum (Missing # cs) = series_sum cs"
| "series_sum (c # cs) = Inl TypeError"

definition nutrition_cols :: "string list" where
  "nutrition_cols = [''calories_kcal'', ''protein_g'', ''carbs_g'', ''fat_g'', ''fiber_g'']"

section \<open>Daily logs and daily totals\<close>

text \<open>
  One pass of the loop of \<^verbatim>\<open>get_daily_logs\<close>:
  \<^verbatim>\<open>if col in daily_df.columns: daily_df[col] = pd.to_numeric(daily_df[col], errors='coerce').fillna(0)\<close>
\<close>

definition coerce_col :: "(string \<Rightarrow> real option) \<Rightarrow> string \<Rightarrow> dataframe \<Rightarrow> dataframe" where
  "coerce_col num_of_str c df =
     (if c \<in> set (columns df)
      then df\<lparr>rows := map (\<lambda>r. r(c \<mapsto> Num (fillna0 (to_numeric num_of_str (cell_at df r c))))) (rows df)\<rparr>
      else df)"

text \<open>
  \<^verbatim>\<open>get_daily_logs(logs_df, user, selected_date)\<close>. The comparison
  \<^verbatim>\<open>logs_df['User'] == user\<close> holds for a text cell equal to the user;
  \<^verbatim>\<open>user_df['Date']\<close> raises KeyError without the column and \<^verbatim>\<open>.dt\<close> raises
  AttributeError on a column that is not a datetime column.
\<close>

definition get_daily_logs ::
  "(string \<Rightarrow> real option) \<Rightarrow> dataframe \<Rightarrow> string \<Rightarrow> date \<Rightarrow> error + dataframe" where
  "get_daily_logs num_of_str logs_df user selected_date =
     (if df_empty logs_df \<or> ''User'' \<notin> set (columns logs_df) then Inr DataFrame_empty
      else if ''Date'' \<notin> set (columns logs_df) then Inl KeyError
      else if \<not> datetimelike logs_df ''Date'' then Inl AttributeError
      else
        let user_df = logs_df\<lparr>rows := filter (\<lambda>r. cell_at logs_df r ''User'' = Str user) (rows logs_df)\<rparr>;
            daily_df = user_df\<lparr>rows :=
              filter (\<lambda>r. dt_date (cell_at user_df r ''Date'') = Some selected_date) (rows user_df)\<rparr>
        in Inr (fold (coerce_col num_of_str) nutrition_cols daily_df))"

text \<open>
  The five totals of the daily summary:
  \<^verbatim>\<open>daily_df[col].sum() if col in daily_df.columns else 0\<close>.
\<close>

definition column_total :: "dataframe \<Rightarrow> string \<Rightarrow> error + real" where
  "column_total daily_df c =
     (if c \<in> set (columns daily_df) then series_sum (map (\<lambda>r. cell_at daily_df r c) (rows daily_df))
      else Inr 0)"

record totals =
  total_calories :: real
  total_protein :: real
  total_carbs :: real
  total_fat :: real
  total_fiber :: real

definition daily_summary ::
  "(string \<Rightarrow> real option) \<Rightarrow> dataframe \<Rightarrow> string \<Rightarrow> date \<Rightarrow> error + totals" where
  "daily_summary num_of_str logs_df user selected_date =
     (case get_daily_logs num_of_str logs_df user selected_date of
        Inl e \<Rightarrow> Inl e
      | Inr daily_df \<Rightarrow>
          (case column_total daily_df ''calories_kcal'' of Inl e \<Rightarrow> Inl e | Inr cal \<Rightarrow>
          (case column_total daily_df ''protein_g'' of Inl e \<Rightarrow> Inl e | Inr pro \<Rightarrow>
          (case column_total daily_df ''carbs_g'' of Inl e \<Rightarrow> Inl e | Inr carb \<Rightarrow>
          (case column_total daily_df ''fat_g'' of Inl e \<Rightarrow> Inl e | Inr fat \<Rightarrow>
          (case column_total daily_df ''fiber_g'' of Inl e \<Rightarrow> Inl e | Inr fib \<Rightarrow>
             Inr \<lparr>total_calories = cal, total_protein = pro, total_carbs = carb,
                  total_fat = fat, total_fiber = fib\<rparr>))))))"

text \<open>
  \<^verbatim>\<open>a / b\<close>: a division by zero gives no number. Python's numbers raise
  ZeroDivisionError (the total is the int 0 when the column is absent); a numpy float
  gives inf or NaN with a warning, which \<^verbatim>\<open>st.progress\<close> refuses. Either way it is an
  error of the model.
\<close>

definition py_truediv :: "real \<Rightarrow> real \<Rightarrow> error + real" where
  "py_truediv a b = (if b = 0 then Inl ZeroDivisionError else Inr (a / b))"

text \<open>
  The progress bar:
  \<^verbatim>\<open>min(total_calories / goal, 1.0) if goal > 0 else 0\<close>. The division runs only
  when the condition holds.
\<close>

definition calorie_progress :: "real \<Rightarrow> int \<Rightarrow> error + real" where
  "calorie_progress total_cal goal =
     (if goal > 0
      then (case py_truediv total_cal (of_int goal) of
              Inl e \<Rightarrow> Inl e
            | Inr ratio \<Rightarrow> Inr (min ratio 1))
      else Inr 0)"

text \<open>
  The reading of the specification, for comparison: the log entries of a user on a
  calendar date, and the value a numeric field of an entry contributes (its number; 0
  when the field is malformed, missing, or not a column of the snapshot).
\<close>

definition matching_entries :: "dataframe \<Rightarrow> string \<Rightarrow> date \<Rightarrow> row list" where
  "matching_entries logs_df user d =
     filter (\<lambda>r. cell_at logs_df r ''User'' = Str user \<and> dt_date (cell_at logs_df r ''Date'') = Some d)
       (rows logs_df)"

definition field_value :: "(string \<Rightarrow> real option) \<Rightarrow> dataframe \<Rightarrow> string \<Rightarrow> row \<Rightarrow> real" where
  "field_value num_of_str logs_df c r = fillna0 (to_numeric num_of_str (cell_at logs_df r c))"

definition logs_snapshot :: "dataframe \<Rightarrow> bool" where
  "logs_snapshot logs_df =
     (df_empty logs_df \<or> (''Date'' \<in> set (columns logs_df) \<and> datetimelike logs_df ''Date''))"

section \<open>Weekly calorie trend\<close>

text \<open>
  What \<^verbatim>\<open>display_weekly_trend\<close> shows: one of its three notices, or the chart's series
  (one entry per day, in the order of the days) with the average of its caption.
\<close>

datatype weekly_view = Notice string | Trend "(date \<times> real) list" real

text \<open>The first error of a list of results, or all their values.\<close>

fun collect :: "(error + 'a) list \<Rightarrow> error + 'a list" where
  "collect [] = Inr []"
| "collect (Inl e # xs) = Inl e"
| "collect (Inr x # xs) = (case collect xs of Inl e \<Rightarrow> Inl e | Inr ys \<Rightarrow> Inr (x # ys))"

text \<open>
  \<^verbatim>\<open>df.groupby(df['Date'].dt.date)[c].sum()\<close>: the group keys are the distinct days in
  ascending order (NaT is no key), and each group is summed as a series; the values are
  not coerced first.
\<close>

definition groupby_date_sum :: "dataframe \<Rightarrow> string \<Rightarrow> error + (date \<times> real) list" where
  "groupby_date_sum df c =
     collect (map (\<lambda>k.
        case series_sum (map (\<lambda>r. cell_at df r c)
               (filter (\<lambda>r. dt_date (cell_at df r ''Date'') = Some k) (rows df))) of
          Inl e \<Rightarrow> Inl e
        | Inr s \<Rightarrow> Inr (k, s))
       (sort (remdups (List.map_filter (\<lambda>r. dt_date (cell_at df r ''Date'')) (rows df)))))"

text \<open>\<^verbatim>\<open>series.mean()\<close> of a series that is not empty.\<close>

definition mean :: "real list \<Rightarrow> real" where
  "mean xs = sum_list xs / real (length xs)"

definition in_window :: "date \<Rightarrow> date \<Rightarrow> cell \<Rightarrow> bool" where
  "in_window start_date end_date c =
     (case dt_date c of None \<Rightarrow> False | Some d \<Rightarrow> start_date \<le> d \<and> d \<le> end_date)"

definition display_weekly_trend :: "dataframe \<Rightarrow> string \<Rightarrow> date \<Rightarrow> error + weekly_view" where
  "display_weekly_trend logs_df user end_date =
     (if df_empty logs_df \<or> ''Date'' \<notin> set (columns logs_df)
      then Inr (Notice ''Log some meals to see your weekly trend.'')
      else if ''User'' \<notin> set (columns logs_df) then Inl KeyError
      else
        let user_df = logs_df\<lparr>rows := filter (\<lambda>r. cell_at logs_df r ''User'' = Str user) (rows logs_df)\<rparr>
        in if df_empty user_df then Inr (Notice ''No meals logged for this user yet.'')
        else if \<not> datetimelike logs_df ''Date'' then Inl AttributeError
        else
          let start_date = end_date - 6;
              weekly_df = user_df\<lparr>rows :=
                filter (\<lambda>r. in_window start_date end_date (cell_at user_df r ''Date'')) (rows user_df)\<rparr>
          in if df_empty weekly_df then Inr (Notice ''No meals logged in the selected 7-day period.'')
          else if ''calories_kcal'' \<notin> set (columns weekly_df) then Inl KeyError
          else (case groupby_date_sum weekly_df ''calories_kcal'' of
                  Inl e \<Rightarrow> Inl e
                | Inr daily_calories \<Rightarrow> Inr (Trend daily_calories (mean (map snd daily_calories)))))"

text \<open>
  The reading of the specification, for comparison: the days of the window
  \<open>end_date - 6, \<dots>, end_date\<close> that have a log entry of the user, each with the sum of
  the calories of its entries.
\<close>

fun calories_of :: "cell \<Rightarrow> real" where
  "calories_of (Num x) = x"
| "calories_of c = 0"

definition weekly_trend_spec :: "dataframe \<Rightarrow> string \<Rightarrow> date \<Rightarrow> (date \<times> real) list" where
  "weekly_trend_spec logs_df user end_date =
     map (\<lambda>d. (d, sum_list (map (\<lambda>r. calories_of (cell_at logs_df r ''calories_kcal''))
                         (matching_entries logs_df user d))))
       (filter (\<lambda>d. matching_entries logs_df user d \<noteq> []) [end_date - 6 .. end_date])"

fun numeric_or_missing :: "cell \<Rightarrow> bool" where
  "numeric_or_missing (Num x) = True"
| "numeric_or_missing Missing = True"
| "numeric_or_missing c = False"

text \<open>
  The snapshots the trend is stated for: an empty one, or one that has the columns the
  trend reads, timestamps as dates, and numbers as the calories of the entries of the
  user in the window (an entry of the user with other calories is the subject of the
  malformed-value claim; the entries of other users and of other days are not restricted).
\<close>

definition weekly_rows :: "dataframe \<Rightarrow> string \<Rightarrow> date \<Rightarrow> row list" where
  "weekly_rows logs_df user end_date =
     filter (\<lambda>r. in_window (end_date - 6) end_date (cell_at logs_df r ''Date''))
       (filter (\<lambda>r. cell_at logs_df r ''User'' = Str user) (rows logs_df))"

definition numeric_logs :: "dataframe \<Rightarrow> string \<Rightarrow> date \<Rightarrow> bool" where
  "numeric_logs logs_df user end_date =
     (df_empty logs_df \<or>
      (''User'' \<in> set (columns logs_df) \<and> ''Date'' \<in> set (columns logs_df) \<and>
       ''calories_kcal'' \<in> set (columns logs_df) \<and> datetimelike logs_df ''Date'' \<and>
       list_all (\<lambda>r. numeric_or_missing (cell_at logs_df r ''calories_kcal''))
         (weekly_rows logs_df user end_date)))"

section \<open>Worksheets and settings\<close>

text \<open>
  A worksheet is its grid of cells, the header row first. A cell holds what
  \<^verbatim>\<open>get_all_records\<close> returns for it: a number, or text that is not a numeral (the blank
  cell is the empty text). \<^verbatim>\<open>find\<close> compares the text the sheet displays; how a number
  is displayed is the sheet's own and is a parameter \<open>str_of_num\<close>. User names are names,
  written to the sheet as text.
\<close>

type_synonym sheet = "cell list list"

fun cell_text :: "(real \<Rightarrow> string) \<Rightarrow> cell \<Rightarrow> string" where
  "cell_text str_of_num (Str s) = s"
| "cell_text str_of_num (Num x) = str_of_num x"
| "cell_text str_of_num c = []"

definition first_text :: "(real \<Rightarrow> string) \<Rightarrow> cell list \<Rightarrow> string" where
  "first_text str_of_num r = (case r of [] \<Rightarrow> [] | c # cs \<Rightarrow> cell_text str_of_num c)"

text \<open>
  \<^verbatim>\<open>settings_ws.find(user, in_column=1)\<close>: the number (from 1) of the first row whose
  first cell displays the query, header row included.
\<close>

fun find_in_column1 :: "(real \<Rightarrow> string) \<Rightarrow> string \<Rightarrow> sheet \<Rightarrow> nat option" where
  "find_in_column1 str_of_num q [] = None"
| "find_in_column1 str_of_num q (r # rs) =
     (if first_text str_of_num r = q then Some 1
      else map_option Suc (find_in_column1 str_of_num q rs))"

text \<open>
  \<^verbatim>\<open>ws.update_cell(row, col, v)\<close>, rows and columns counted from 1; a row shorter than
  the column is filled with blank cells, as the grid is rectangular.
\<close>

definition set_cell :: "cell list \<Rightarrow> nat \<Rightarrow> cell \<Rightarrow> cell list" where
  "set_cell r j v = (r @ replicate (Suc j - length r) (Str [])) [j := v]"

definition update_cell :: "sheet \<Rightarrow> nat \<Rightarrow> nat \<Rightarrow> cell \<Rightarrow> sheet" where
  "update_cell ws row col v =
     (if 1 \<le> row \<and> row \<le> length ws \<and> 1 \<le> col
      then ws[row - 1 := set_cell (ws ! (row - 1)) (col - 1) v] else ws)"

definition append_row :: "sheet \<Rightarrow> cell list \<Rightarrow> sheet" where
  "append_row ws r = ws @ [r]"

text \<open>
  \<^verbatim>\<open>ws.get_all_records()\<close>: one dict per row under the header, keyed by the header's
  texts, a short row filled with blanks. \<^verbatim>\<open>pd.DataFrame(records)\<close>: the keys are the
  columns; a dict built from pairs keeps the last value of a repeated key.
\<close>

definition pad_row :: "nat \<Rightarrow> cell list \<Rightarrow> cell list" where
  "pad_row n r = r @ replicate (n - length r) (Str [])"

definition get_all_records :: "(real \<Rightarrow> string) \<Rightarrow> sheet \<Rightarrow> (string \<times> cell) list list" where
  "get_all_records str_of_num ws =
     (case ws of
        [] \<Rightarrow> []
      | hdr # body \<Rightarrow>
          map (\<lambda>r. zip (map (cell_text str_of_num) hdr) (pad_row (length hdr) r)) body)"

definition DataFrame_records :: "(string \<times> cell) list list \<Rightarrow> dataframe" where
  "DataFrame_records recs =
     (case recs of
        [] \<Rightarrow> DataFrame_empty
      | r # rs \<Rightarrow> \<lparr>columns = rev (remdups (rev (map fst r))), rows = map (\<lambda>d. map_of (rev d)) recs\<rparr>)"

text \<open>
  Python's \<^verbatim>\<open>int(v)\<close> on a cell: a float is truncated towards zero, NaN raises
  ValueError, text is read by Python's own reader (a parameter \<open>int_of_str\<close>).
\<close>

fun py_int :: "(string \<Rightarrow> int option) \<Rightarrow> cell \<Rightarrow> error + int" where
  "py_int int_of_str (Num x) = Inr (if 0 \<le> x then \<lfloor>x\<rfloor> else \<lceil>x\<rceil>)"
| "py_int int_of_str (Str s) = (case int_of_str s of None \<Rightarrow> Inl ValueError | Some i \<Rightarrow> Inr i)"
| "py_int int_of_str (Stamp d t) = Inl TypeError"
| "py_int int_of_str Missing = Inl ValueError"

text \<open>
  \<^verbatim>\<open>get_calorie_goal(settings_df, user)\<close>: the Value of the first row whose User is the
  user and whose Setting is \<^verbatim>\<open>'Calorie Goal'\<close>, as an int; 2000 without such a row.
\<close>

definition get_calorie_goal :: "(string \<Rightarrow> int option) \<Rightarrow> dataframe \<Rightarrow> string \<Rightarrow> error + int" where
  "get_calorie_goal int_of_str settings_df user =
     (if df_empty settings_df \<or> ''User'' \<notin> set (columns settings_df) then Inr 2000
      else if ''Setting'' \<notin> set (columns settings_df) then Inl KeyError
      else
        (case filter (\<lambda>r. cell_at settings_df r ''User'' = Str user \<and>
                          cell_at settings_df r ''Setting'' = Str ''Calorie Goal'') (rows settings_df) of
           [] \<Rightarrow> Inr 2000
         | r # rs \<Rightarrow>
             if ''Value'' \<notin> set (columns settings_df) then Inl KeyError
             else py_int int_of_str (cell_at settings_df r ''Value'')))"

text \<open>
  The reading of the specification, for comparison: the rows of a Settings snapshot that
  hold the calorie goal of a user, and a snapshot with the columns of the Settings table
  (or none at all).
\<close>

definition goal_rows :: "dataframe \<Rightarrow> string \<Rightarrow> row list" where
  "goal_rows settings_df user =
     filter (\<lambda>r. cell_at settings_df r ''User'' = Str user \<and>
                 cell_at settings_df r ''Setting'' = Str ''Calorie Goal'') (rows settings_df)"

definition settings_snapshot :: "dataframe \<Rightarrow> bool" where
  "settings_snapshot settings_df =
     (df_empty settings_df \<or>
      (''User'' \<in> set (columns settings_df) \<and> ''Setting'' \<in> set (columns settings_df) \<and>
       ''Value'' \<in> set (columns settings_df)))"

section \<open>The estimator's reply\<close>

datatype json =
  JNull | JBool bool | JNum real | JStr string | JArr "json list" | JObj "(string \<times> json) list"

text \<open>\<^verbatim>\<open>obj.get(key, default)\<close>: only a dict has the method.\<close>

fun dict_get :: "json \<Rightarrow> string \<Rightarrow> json \<Rightarrow> error + json" where
  "dict_get (JObj kvs) k dflt = Inr (case map_of kvs k of None \<Rightarrow> dflt | Some v \<Rightarrow> v)"
| "dict_get j k dflt = Inl AttributeError"

text \<open>
  \<^verbatim>\<open>float(v)\<close> on a JSON value: a number is itself, a boolean 1 or 0, text is read by
  Python's own reader (a parameter \<open>float_of_str\<close>), the rest raises TypeError.
\<close>

fun py_float :: "(string \<Rightarrow> real option) \<Rightarrow> json \<Rightarrow> error + real" where
  "py_float float_of_str (JNum x) = Inr x"
| "py_float float_of_str (JBool b) = Inr (if b then 1 else 0)"
| "py_float float_of_str (JStr s) = (case float_of_str s of None \<Rightarrow> Inl ValueError | Some x \<Rightarrow> Inr x)"
| "py_float float_of_str j = Inl TypeError"

section \<open>Python strings\<close>

text \<open>
  Characters are code points below 256. \<^verbatim>\<open>str.strip()\<close> removes the white space of
  \<^verbatim>\<open>str.isspace\<close> at both ends; \<^verbatim>\<open>s.split("\n")\<close> cuts at every line feed;
  \<^verbatim>\<open>sep.join(xs)\<close> puts the separator between the items.
\<close>

definition is_space :: "char \<Rightarrow> bool" where
  "is_space c = (of_char c \<in> {9, 10, 11, 12, 13, 28, 29, 30, 31, 32, 133, 160 :: nat})"

definition strip :: "string \<Rightarrow> string" where
  "strip s = rev (dropWhile is_space (rev (dropWhile is_space s)))"

fun split_lines :: "string \<Rightarrow> string list" where
  "split_lines [] = [[]]"
| "split_lines (c # cs) =
     (if c = CHR 0x0A then [] # split_lines cs
      else (case split_lines cs of [] \<Rightarrow> [[c]] | l # ls \<Rightarrow> (c # l) # ls))"

fun join :: "string \<Rightarrow> string list \<Rightarrow> string" where
  "join sep [] = []"
| "join sep [x] = x"
| "join sep (x # y # zs) = x @ sep @ join sep (y # zs)"

section \<open>The session and its handlers\<close>

text \<open>
  What lies outside the repository is a parameter: how the sheet displays a number, the
  readers of numeric text of pandas and Python, \<^verbatim>\<open>pd.to_datetime\<close> on a cell (an error,
  NaT or a timestamp), the estimator call \<^verbatim>\<open>get_nutrition_data\<close> sends (its reply or
  the exception), \<^verbatim>\<open>json.loads\<close>, \<^verbatim>\<open>json.dumps\<close> and \<^verbatim>\<open>strftime('%Y-%m-%d')\<close>.
\<close>

record env =
  show_number :: "real \<Rightarrow> string"
  pd_numeric_text :: "string \<Rightarrow> real option"
  py_int_text :: "string \<Rightarrow> int option"
  py_float_text :: "string \<Rightarrow> real option"
  pd_to_datetime :: "cell \<Rightarrow> error + (date \<times> nat) option"
  get_nutrition_data :: "string \<Rightarrow> error + string"
  json_loads :: "string \<Rightarrow> error + json"
  json_dumps :: "json \<Rightarrow> string"
  strftime_ymd :: "date \<Rightarrow> string"

text \<open>
  The messages the handlers show: \<^verbatim>\<open>st.success\<close> after a saved goal and a logged meal,
  \<^verbatim>\<open>st.error\<close> for a meal form without items, a failed write and a failed fetch.
\<close>

datatype message =
  GoalSaved int | MealLogged string | EnterItems string
  | SaveGoalFailed | SheetWriteFailed | FetchFailed

text \<open>
  The state a handler runs in: the two worksheets of the remote store and whether the
  store answers, the entry of \<^verbatim>\<open>st.cache_data\<close> for \<^verbatim>\<open>fetch_all_data\<close> (when it was
  made, and the frames), \<^verbatim>\<open>st.session_state\<close>, the messages shown and the prompts sent
  to the estimator.
\<close>

record world =
  logs_ws :: sheet
  settings_ws :: sheet
  online :: bool
  data_cache :: "(nat \<times> dataframe \<times> dataframe) option"
  ss_user :: string
  ss_logs_df :: dataframe
  ss_settings_df :: dataframe
  ss_calorie_goal :: int
  shown :: "message list"
  prompts :: "string list"

text \<open>
  \<^verbatim>\<open>logs_df['Date'] = pd.to_datetime(logs_df['Date'])\<close>: every cell of the column is
  converted; one cell that cannot be read raises.
\<close>

definition convert_dates ::
  "(cell \<Rightarrow> error + (date \<times> nat) option) \<Rightarrow> dataframe \<Rightarrow> error + dataframe" where
  "convert_dates to_dt df =
     (case collect (map (\<lambda>r. case to_dt (cell_at df r ''Date'') of
                               Inl e \<Rightarrow> Inl e
                             | Inr None \<Rightarrow> Inr (r(''Date'' \<mapsto> Missing))
                             | Inr (Some (d, t)) \<Rightarrow> Inr (r(''Date'' \<mapsto> Stamp d t))) (rows df)) of
        Inl e \<Rightarrow> Inl e
      | Inr rs \<Rightarrow> Inr (df\<lparr>rows := rs\<rparr>))"

text \<open>The body of \<^verbatim>\<open>fetch_all_data\<close> inside its \<^verbatim>\<open>try\<close>.\<close>

definition fetch_from_store :: "env \<Rightarrow> world \<Rightarrow> error + dataframe \<times> dataframe" where
  "fetch_from_store env w =
     (if \<not> online w then Inl StoreError
      else
        let logs_df = DataFrame_records (get_all_records (show_number env) (logs_ws w));
            settings_df = DataFrame_records (get_all_records (show_number env) (settings_ws w))
        in if \<not> df_empty logs_df \<and> ''Date'' \<in> set (columns logs_df)
           then (case convert_dates (pd_to_datetime env) logs_df of
                   Inl e \<Rightarrow> Inl e
                 | Inr converted \<Rightarrow> Inr (converted, settings_df))
           else Inr (logs_df, settings_df))"

text \<open>
  \<^verbatim>\<open>fetch_all_data\<close> under \<^verbatim>\<open>@st.cache_data(ttl=60)\<close>: an entry younger than 60 seconds
  is returned without a call of the store; otherwise the body runs and its result (two
  empty frames after an exception) is cached.
\<close>

definition fetch_all_data :: "env \<Rightarrow> nat \<Rightarrow> world \<Rightarrow> (dataframe \<times> dataframe) \<times> world" where
  "fetch_all_data env now w =
     (let miss =
            (case fetch_from_store env w of
               Inl e \<Rightarrow> ((DataFrame_empty, DataFrame_empty),
                          w\<lparr>data_cache := Some (now, DataFrame_empty, DataFrame_empty),
                            shown := shown w @ [FetchFailed]\<rparr>)
             | Inr frames \<Rightarrow> (frames, w\<lparr>data_cache := Some (now, frames)\<rparr>))
      in case data_cache w of
           None \<Rightarrow> miss
         | Some (t, frames) \<Rightarrow> if now < t + 60 then (frames, w) else miss)"

text \<open>
  \<^verbatim>\<open>set_calorie_goal(settings_ws, user, new_goal)\<close>: find the user in column 1; write the
  goal into column 3 of that row, or append a row. An exception of the store is caught:
  an error is shown and the result is False.
\<close>

definition set_calorie_goal :: "env \<Rightarrow> string \<Rightarrow> int \<Rightarrow> world \<Rightarrow> bool \<times> world" where
  "set_calorie_goal env user new_goal w =
     (if \<not> online w then (False, w\<lparr>shown := shown w @ [SaveGoalFailed]\<rparr>)
      else
        (case find_in_column1 (show_number env) user (settings_ws w) of
           Some row \<Rightarrow>
             (True, w\<lparr>settings_ws := update_cell (settings_ws w) row 3 (Num (of_int new_goal))\<rparr>)
         | None \<Rightarrow>
             (True, w\<lparr>settings_ws :=
                append_row (settings_ws w) [Str user, Str ''Calorie Goal'', Num (of_int new_goal)]\<rparr>)))"

text \<open>
  The submit of the settings form:
  \<^verbatim>\<open>st.session_state.calorie_goal = new_goal\<close>, then \<^verbatim>\<open>set_calorie_goal\<close>, and after a
  success \<^verbatim>\<open>st.success\<close> and \<^verbatim>\<open>st.cache_data.clear()\<close>.
\<close>

definition save_goal_submit :: "env \<Rightarrow> int \<Rightarrow> world \<Rightarrow> world" where
  "save_goal_submit env new_goal w =
     (let w1 = w\<lparr>ss_calorie_goal := new_goal\<rparr>;
          saved = set_calorie_goal env (ss_user w1) new_goal w1
      in if fst saved
         then (snd saved)\<lparr>shown := shown (snd saved) @ [GoalSaved new_goal], data_cache := None\<rparr>
         else snd saved)"

text \<open>\<^verbatim>\<open>log_to_google_sheet(logs_ws, new_log_entry)\<close>.\<close>

definition log_to_google_sheet :: "cell list \<Rightarrow> world \<Rightarrow> bool \<times> world" where
  "log_to_google_sheet new_log_entry w =
     (if \<not> online w then (False, w\<lparr>shown := shown w @ [SheetWriteFailed]\<rparr>)
      else (True, w\<lparr>logs_ws := append_row (logs_ws w) new_log_entry\<rparr>))"

text \<open>\<^verbatim>\<open>float(totals.get(k, 0))\<close>.\<close>

definition total_field :: "env \<Rightarrow> json \<Rightarrow> string \<Rightarrow> error + real" where
  "total_field env totals k =
     (case dict_get totals k (JNum 0) of
        Inl e \<Rightarrow> Inl e
      | Inr v \<Rightarrow> py_float (py_float_text env) v)"

text \<open>
  The log entry \<^verbatim>\<open>new_row_dict\<close> of the meal form, its keys in the order of the Logs
  columns. \<^verbatim>\<open>totals = parsed_data.get('totals', {})\<close> and the five \<^verbatim>\<open>float\<close> calls can
  raise; they run in this order.
\<close>

definition new_row_dict ::
  "env \<Rightarrow> string \<Rightarrow> string \<Rightarrow> string \<Rightarrow> date \<Rightarrow> string list \<Rightarrow> json \<Rightarrow> error + (string \<times> cell) list" where
  "new_row_dict env user now_iso meal_name selected_date items_list parsed_data =
     (case dict_get parsed_data ''totals'' (JObj []) of Inl e \<Rightarrow> Inl e | Inr totals \<Rightarrow>
     (case total_field env totals ''calories_kcal'' of Inl e \<Rightarrow> Inl e | Inr cal \<Rightarrow>
     (case total_field env totals ''protein_g'' of Inl e \<Rightarrow> Inl e | Inr pro \<Rightarrow>
     (case total_field env totals ''carbs_g'' of Inl e \<Rightarrow> Inl e | Inr carb \<Rightarrow>
     (case total_field env totals ''fat_g'' of Inl e \<Rightarrow> Inl e | Inr fat \<Rightarrow>
     (case total_field env totals ''fiber_g'' of Inl e \<Rightarrow> Inl e | Inr fib \<Rightarrow>
        Inr [(''User'', Str user), (''Timestamp'', Str now_iso),
             (''Date'', Str (strftime_ymd env selected_date)), (''Meal'', Str meal_name),
             (''items_text'', Str (join ''; '' items_list)),
             (''calories_kcal'', Num cal), (''protein_g'', Num pro), (''carbs_g'', Num carb),
             (''fat_g'', Num fat), (''fiber_g'', Num fib),
             (''json_data'', Str (json_dumps env parsed_data))]))))))"

text \<open>
  \<^verbatim>\<open>pd.DataFrame([new_row_dict])\<close> with its Date made a timestamp: \<^verbatim>\<open>pd.to_datetime\<close> of
  the text \<^verbatim>\<open>strftime\<close> has just written is midnight of the selected date.
\<close>

definition new_row_frame :: "(string \<times> cell) list \<Rightarrow> date \<Rightarrow> dataframe" where
  "new_row_frame d selected_date =
     \<lparr>columns = map fst d, rows = [(map_of d)(''Date'' \<mapsto> Stamp selected_date 0)]\<rparr>"

text \<open>
  \<^verbatim>\<open>pd.concat([a, b], ignore_index=True)\<close>: the columns of \<open>a\<close>, then the new ones of \<open>b\<close>;
  the rows of \<open>a\<close>, then those of \<open>b\<close>, each with NaN under the columns it does not have.
\<close>

definition concat_frames :: "dataframe \<Rightarrow> dataframe \<Rightarrow> dataframe" where
  "concat_frames a b =
     \<lparr>columns = columns a @ filter (\<lambda>c. c \<notin> set (columns a)) (columns b),
      rows = map (\<lambda>r. r |` set (columns a)) (rows a) @ map (\<lambda>r. r |` set (columns b)) (rows b)\<rparr>"

definition items_of :: "string \<Rightarrow> string list" where
  "items_of items_input = map strip (filter (\<lambda>line. strip line \<noteq> []) (split_lines items_input))"

definition prompt_of :: "string \<Rightarrow> string list \<Rightarrow> string" where
  "prompt_of meal_name items_list =
     ''Meal: '' @ meal_name @ [CHR 0x0A] @ ''Items:'' @ [CHR 0x0A] @
     join [CHR 0x0A] (map (\<lambda>it. ''- '' @ it) items_list)"

text \<open>
  The submit of a meal form. An exception of the estimator call, of \<^verbatim>\<open>json.loads\<close> or of
  the construction of the entry is not caught: the handler ends with it, after the
  prompt was sent. Otherwise the entry is appended to \<^verbatim>\<open>st.session_state.logs_df\<close>, then
  written to the Logs sheet (a failed write shows an error and is otherwise ignored),
  and \<^verbatim>\<open>st.success\<close> is shown.
\<close>

definition log_meal_submit ::
  "env \<Rightarrow> string \<Rightarrow> string \<Rightarrow> date \<Rightarrow> string \<Rightarrow> world \<Rightarrow> error option \<times> world" where
  "log_meal_submit env now_iso meal_name selected_date items_input w =
     (if strip items_input \<noteq> [] then
        let items_list = items_of items_input;
            user_prompt = prompt_of meal_name items_list;
            w1 = w\<lparr>prompts := prompts w @ [user_prompt]\<rparr>
        in (case get_nutrition_data env user_prompt of
              Inl e \<Rightarrow> (Some e, w1)
            | Inr raw_response \<Rightarrow>
                (case json_loads env raw_response of
                   Inl e \<Rightarrow> (Some e, w1)
                 | Inr parsed_data \<Rightarrow>
                     (case new_row_dict env (ss_user w1) now_iso meal_name selected_date
                             items_list parsed_data of
                        Inl e \<Rightarrow> (Some e, w1)
                      | Inr d \<Rightarrow>
                          let w2 = w1\<lparr>ss_logs_df :=
                                     concat_frames (ss_logs_df w1) (new_row_frame d selected_date)\<rparr>;
                              w3 = snd (log_to_google_sheet (map snd d) w2)
                          in (None, w3\<lparr>shown := shown w3 @ [MealLogged meal_name]\<rparr>))))
      else (None, w\<lparr>shown := shown w @ [EnterItems meal_name]\<rparr>))"


section \<open>Sample data\<close>

definition sample_logs :: dataframe where
  "sample_logs =
     \<lparr>columns = [''User'', ''Date'', ''calories_kcal'', ''protein_g''],
      rows = [[''User'' \<mapsto> Str ''Suyash'', ''Date'' \<mapsto> Stamp 100 0,
               ''calories_kcal'' \<mapsto> Num 300, ''protein_g'' \<mapsto> Str ''abc''],
              [''User'' \<mapsto> Str ''Suyash'', ''Date'' \<mapsto> Stamp 100 5, ''calories_kcal'' \<mapsto> Num 200],
              [''User'' \<mapsto> Str ''Divyanshi'', ''Date'' \<mapsto> Stamp 100 5, ''calories_kcal'' \<mapsto> Num 1],
              [''User'' \<mapsto> Str ''Suyash'', ''Date'' \<mapsto> Stamp 101 5, ''calories_kcal'' \<mapsto> Num 2]]\<rparr>"

definition sample_week :: dataframe where
  "sample_week =
     \<lparr>columns = [''User'', ''Date'', ''calories_kcal''],
      rows = [[''User'' \<mapsto> Str ''Suyash'', ''Date'' \<mapsto> Stamp 98 0, ''calories_kcal'' \<mapsto> Num 300],
              [''User'' \<mapsto> Str ''Divyanshi'', ''Date'' \<mapsto> Stamp 99 0, ''calories_kcal'' \<mapsto> Str []],
              [''User'' \<mapsto> Str ''Suyash'', ''Date'' \<mapsto> Stamp 93 0, ''calories_kcal'' \<mapsto> Num 900],
              [''User'' \<mapsto> Str ''Suyash'', ''Date'' \<mapsto> Stamp 100 0, ''calories_kcal'' \<mapsto> Num 500]]\<rparr>"

definition sample_malformed :: dataframe where
  "sample_malformed =
     \<lparr>columns = [''User'', ''Date'', ''calories_kcal''],
      rows = [[''User'' \<mapsto> Str ''Suyash'', ''Date'' \<mapsto> Stamp 100 0, ''calories_kcal'' \<mapsto> Num 300],
              [''User'' \<mapsto> Str ''Suyash'', ''Date'' \<mapsto> Stamp 100 0, ''calories_kcal'' \<mapsto> Str []]]\<rparr>"

text \<open>
  A sample environment: the estimator answers every prompt with a reply whose totals
  lack \<open>fiber_g\<close>; the sheet displays every number as \<open>#\<close>; no text is numeric.
\<close>

definition sample_reply :: json where
  "sample_reply =
     JObj [(''meal'', JStr ''Breakfast''), (''items'', JArr []),
           (''totals'', JObj [(''calories_kcal'', JNum 360.5), (''protein_g'', JNum 13.2),
                              (''carbs_g'', JNum 58), (''fat_g'', JNum 8.5)])]"

definition sample_env :: env where
  "sample_env =
     \<lparr>show_number = (\<lambda>x. ''#''),
      pd_numeric_text = (\<lambda>s. None),
      py_int_text = (\<lambda>s. None),
      py_float_text = (\<lambda>s. None),
      pd_to_datetime = (\<lambda>c. if c = Str ''2024-01-05'' then Inr (Some (100, 0)) else Inl ValueError),
      get_nutrition_data = (\<lambda>p. Inr ''reply''),
      json_loads = (\<lambda>s. if s = ''reply'' then Inr sample_reply else Inl JSONDecodeError),
      json_dumps = (\<lambda>j. ''dump''),
      strftime_ymd = (\<lambda>d. ''2024-01-05'')\<rparr>"

definition settings_header :: "cell list" where
  "settings_header = [Str ''User'', Str ''Setting'', Str ''Value'']"

definition sample_settings_df :: dataframe where
  "sample_settings_df =
     \<lparr>columns = [''User'', ''Setting'', ''Value''],
      rows = [[''User'' \<mapsto> Str ''Suyash'', ''Setting'' \<mapsto> Str ''Calorie Goal'', ''Value'' \<mapsto> Num 2000]]\<rparr>"

text \<open>
  A sample state: a Logs sheet with its header only, one Settings row, and the cache
  entry of a fetch made at second 0.
\<close>

definition sample_world :: world where
  "sample_world =
     \<lparr>logs_ws = [[Str ''User'', Str ''Timestamp'', Str ''Date'', Str ''Meal'', Str ''items_text'',
                  Str ''calories_kcal'', Str ''protein_g'', Str ''carbs_g'', Str ''fat_g'',
                  Str ''fiber_g'', Str ''json_data'']],
      settings_ws = [settings_header, [Str ''Suyash'', Str ''Calorie Goal'', Num 2000]],
      online = True,
      data_cache = Some (0, DataFrame_empty, sample_settings_df),
      ss_user = ''Suyash'',
      ss_logs_df = DataFrame_empty,
      ss_settings_df = sample_settings_df,
      ss_calorie_goal = 2000,
      shown = [],
      prompts = []\<rparr>"

text \<open>
  The sample state with a Settings sheet whose row for the user holds another setting.
\<close>

definition sample_other_setting :: world where
  "sample_other_setting =
     sample_world\<lparr>settings_ws := [settings_header, [Str ''Suyash'', Str ''Protein Goal'', Num 100]]\<rparr>"

section \<open>Daily totals and progress\<close>

lemma columns_coerce_col: "columns (coerce_col p c df) = columns df"
  by (simp add: coerce_col_def)

lemma columns_fold_coerce: "columns (fold (coerce_col p) cs df) = columns df"
  by (induction cs arbitrary: df) (simp_all add: columns_coerce_col)

lemma cell_at_cong: "columns df' = columns df \<Longrightarrow> cell_at df' r c = cell_at df r c"
  by (simp add: cell_at_def)

lemma cells_coerce_col:
  "map (\<lambda>r. g (cell_at (coerce_col p a df) r c)) (rows (coerce_col p a df)) =
   map (\<lambda>r. g (if c = a \<and> a \<in> set (columns df)
             then Num (fillna0 (to_numeric p (cell_at df r c))) else cell_at df r c)) (rows df)"
  by (auto simp: coerce_col_def cell_at_def)

lemma cells_fold_coerce:
  "distinct cs \<Longrightarrow>
   map (\<lambda>r. cell_at (fold (coerce_col p) cs df) r c) (rows (fold (coerce_col p) cs df)) =
   map (\<lambda>r. if c \<in> set cs \<and> c \<in> set (columns df)
             then Num (fillna0 (to_numeric p (cell_at df r c))) else cell_at df r c) (rows df)"
proof (induction cs arbitrary: df)
  case Nil
  then show ?case by simp
next
  case (Cons a cs)
  have d: "distinct cs" and na: "a \<notin> set cs" using Cons.prems by simp_all
  let ?df1 = "coerce_col p a df"
  let ?g = "\<lambda>v. if c \<in> set cs \<and> c \<in> set (columns df)
             then Num (fillna0 (to_numeric p v)) else v"
  have "map (\<lambda>r. cell_at (fold (coerce_col p) (a # cs) df) r c) (rows (fold (coerce_col p) (a # cs) df)) =
        map (\<lambda>r. cell_at (fold (coerce_col p) cs ?df1) r c) (rows (fold (coerce_col p) cs ?df1))"
    by simp
  also have "\<dots> = map (\<lambda>r. ?g (cell_at ?df1 r c)) (rows ?df1)"
    using Cons.IH [OF d, of ?df1] by (simp add: columns_coerce_col)
  also have "\<dots> = map (\<lambda>r. ?g (if c = a \<and> a \<in> set (columns df)
             then Num (fillna0 (to_numeric p (cell_at df r c))) else cell_at df r c)) (rows df)"
    by (rule cells_coerce_col)
  also have "\<dots> = map (\<lambda>r. if c \<in> set (a # cs) \<and> c \<in> set (columns df)
             then Num (fillna0 (to_numeric p (cell_at df r c))) else cell_at df r c) (rows df)"
    using na by (intro map_cong refl) auto
  finally show ?case .
qed

lemma series_sum_Num: "series_sum (map (\<lambda>r. Num (f r)) rs) = Inr (sum_list (map f rs))"
  by (induction rs) simp_all

lemma column_total_daily:
  assumes "c \<in> set nutrition_cols"
  shows "column_total (fold (coerce_col p) nutrition_cols df) c =
         Inr (sum_list (map (field_value p df c) (rows df)))"
proof (cases "c \<in> set (columns df)")
  case True
  have fv: "field_value p df c = (\<lambda>r. fillna0 (to_numeric p (cell_at df r c)))"
    by (simp add: fun_eq_iff field_value_def)
  have "distinct nutrition_cols" by (simp add: nutrition_cols_def)
  from cells_fold_coerce [OF this, of p df c] assms True
  show ?thesis
    by (simp add: column_total_def columns_fold_coerce series_sum_Num fv)
next
  case False
  have fv: "field_value p df c = (\<lambda>r. 0)"
    using False by (simp add: fun_eq_iff field_value_def cell_at_def)
  show ?thesis using False
    by (simp add: column_total_def columns_fold_coerce fv)
qed


lemma matching_entries_no_frame:
  "df_empty df \<or> ''User'' \<notin> set (columns df) \<Longrightarrow> matching_entries df user d = []"
  by (cases "rows df = []") (auto simp: matching_entries_def df_empty_def cell_at_def)

lemma column_total_DataFrame_empty: "column_total DataFrame_empty c = Inr 0"
  by (simp add: column_total_def DataFrame_empty_def)

lemma get_daily_logs_frame:
  assumes "\<not> df_empty df" "''User'' \<in> set (columns df)" "''Date'' \<in> set (columns df)"
    "datetimelike df ''Date''"
  shows "get_daily_logs p df user d =
         Inr (fold (coerce_col p) nutrition_cols (df\<lparr>rows := matching_entries df user d\<rparr>))"
  using assms by (simp add: get_daily_logs_def Let_def matching_entries_def cell_at_def)

lemma field_value_rows: "field_value p (df\<lparr>rows := rs\<rparr>) c = field_value p df c"
  by (simp add: fun_eq_iff field_value_def cell_at_def)

lemma daily_summary_eq:
  assumes "logs_snapshot logs_df"
  shows "daily_summary p logs_df user d =
     Inr \<lparr>total_calories = sum_list (map (field_value p logs_df ''calories_kcal'') (matching_entries logs_df user d)),
          total_protein = sum_list (map (field_value p logs_df ''protein_g'') (matching_entries logs_df user d)),
          total_carbs = sum_list (map (field_value p logs_df ''carbs_g'') (matching_entries logs_df user d)),
          total_fat = sum_list (map (field_value p logs_df ''fat_g'') (matching_entries logs_df user d)),
          total_fiber = sum_list (map (field_value p logs_df ''fiber_g'') (matching_entries logs_df user d))\<rparr>"
proof (cases "df_empty logs_df \<or> ''User'' \<notin> set (columns logs_df)")
  case True
  then have "get_daily_logs p logs_df user d = Inr DataFrame_empty"
    by (simp add: get_daily_logs_def)
  then show ?thesis
    by (simp add: daily_summary_def column_total_DataFrame_empty matching_entries_no_frame [OF True])
next
  case False
  with assms have ok: "\<not> df_empty logs_df" "''User'' \<in> set (columns logs_df)"
    "''Date'' \<in> set (columns logs_df)" "datetimelike logs_df ''Date''"
    by (auto simp: logs_snapshot_def)
  have mem: "''calories_kcal'' \<in> set nutrition_cols" "''protein_g'' \<in> set nutrition_cols"
    "''carbs_g'' \<in> set nutrition_cols" "''fat_g'' \<in> set nutrition_cols"
    "''fiber_g'' \<in> set nutrition_cols"
    by (simp_all add: nutrition_cols_def)
  show ?thesis
    by (simp add: daily_summary_def get_daily_logs_frame [OF ok] column_total_daily mem field_value_rows)
qed


text \<open>
  Claim C1. On every snapshot of the Logs rows (an empty frame, or a frame whose Date
  column holds timestamps), for every user and calendar date, the five daily totals are
  the sums of \<open>calories_kcal\<close>, \<open>protein_g\<close>, \<open>carbs_g\<close>, \<open>fat_g\<close> and \<open>fiber_g\<close> over exactly
  the entries whose user matches and whose Date falls on that calendar day, whatever its
  time of day; they are all zero when no entry matches.
\<close>

theorem daily_totals_are_sums:
  assumes "logs_snapshot logs_df"
  shows "daily_summary p logs_df user d =
     Inr \<lparr>total_calories = sum_list (map (field_value p logs_df ''calories_kcal'') (matching_entries logs_df user d)),
          total_protein = sum_list (map (field_value p logs_df ''protein_g'') (matching_entries logs_df user d)),
          total_carbs = sum_list (map (field_value p logs_df ''carbs_g'') (matching_entries logs_df user d)),
          total_fat = sum_list (map (field_value p logs_df ''fat_g'') (matching_entries logs_df user d)),
          total_fiber = sum_list (map (field_value p logs_df ''fiber_g'') (matching_entries logs_df user d))\<rparr> \<and>
    (matching_entries logs_df user d = [] \<longrightarrow>
         daily_summary p logs_df user d =
           Inr \<lparr>total_calories = 0, total_protein = 0, total_carbs = 0, total_fat = 0, total_fiber = 0\<rparr>)"
  using daily_summary_eq [OF assms, of p user d] by simp

text \<open>
  The theorem at a sample snapshot: two entries of one user on day 100 (at different
  times of day), one of another user, one on the next day.
\<close>

theorem daily_totals_are_sums_witness:
  "logs_snapshot sample_logs \<and>
   daily_summary (\<lambda>s. None) sample_logs ''Suyash'' 100 =
     Inr \<lparr>total_calories = 500, total_protein = 0, total_carbs = 0, total_fat = 0, total_fiber = 0\<rparr> \<and>
   daily_summary (\<lambda>s. None) sample_logs ''Suyash'' 99 =
     Inr \<lparr>total_calories = 0, total_protein = 0, total_carbs = 0, total_fat = 0, total_fiber = 0\<rparr>"
proof -
  have h: "logs_snapshot sample_logs"
    by (simp add: logs_snapshot_def sample_logs_def datetimelike_def cell_at_def)
  show ?thesis
    using h daily_totals_are_sums [OF h, of "\<lambda>s. None" "''Suyash''" 100]
      daily_totals_are_sums [OF h, of "\<lambda>s. None" "''Suyash''" 99]
    by (simp add: matching_entries_def field_value_def sample_logs_def cell_at_def)
qed

text \<open>
  Claim C10. For a daily total that is not negative and a goal that is not negative, the
  progress fraction is computed without an error and lies between 0 and 1: at the goal 0
  the division is not run and the progress is 0; otherwise it is the ratio of total and
  goal, and 1 when the ratio is above 1.
\<close>

theorem calorie_progress_bounds:
  assumes "0 \<le> total_cal" and "0 \<le> goal"
  shows "\<exists>p. calorie_progress total_cal goal = Inr p \<and> 0 \<le> p \<and> p \<le> 1 \<and>
             (goal = 0 \<longrightarrow> p = 0) \<and>
             (goal \<noteq> 0 \<longrightarrow> p = (if total_cal / of_int goal \<le> 1 then total_cal / of_int goal else 1))"
  using assms by (auto simp: calorie_progress_def py_truediv_def min_def)

text \<open>The theorem at 1500 and 2500 kcal against a goal of 2000, and at a goal of 0.\<close>

theorem calorie_progress_bounds_witness:
  "(0::real) \<le> 1500 \<and> (0::int) \<le> 2000 \<and> calorie_progress 1500 2000 = Inr (3 / 4) \<and>
   calorie_progress 2500 2000 = Inr 1 \<and> calorie_progress 1500 0 = Inr 0 \<and>
   calorie_progress 0 0 = Inr 0"
  using calorie_progress_bounds [of 1500 2000] calorie_progress_bounds [of 2500 2000]
    calorie_progress_bounds [of 1500 0] calorie_progress_bounds [of 0 0]
  by auto

section \<open>Weekly trend\<close>

lemma series_sum_numeric:
  "list_all numeric_or_missing cs \<Longrightarrow> series_sum cs = Inr (sum_list (map calories_of cs))"
  by (induction cs rule: series_sum.induct) simp_all

lemma collect_Inr: "collect (map (\<lambda>k. Inr (f k)) ks) = Inr (map f ks)"
  by (induction ks) simp_all

lemma sorted_distinct_keys:
  assumes "set ks = {d \<in> set [a..b]. P d}"
  shows "sort (remdups ks) = filter P [a..b]"
proof (rule sorted_distinct_set_unique)
  show "set (sort (remdups ks)) = set (filter P [a..b])" using assms by auto
qed (simp_all add: sorted_wrt_filter)

lemma weekly_groups:
  fixes df user e
  defines "W \<equiv> filter (\<lambda>r. in_window (e - 6) e (cell_at df r ''Date''))
                  (filter (\<lambda>r. cell_at df r ''User'' = Str user) (rows df))"
  shows "e - 6 \<le> d \<Longrightarrow> d \<le> e \<Longrightarrow>
         filter (\<lambda>r. dt_date (cell_at df r ''Date'') = Some d) W = matching_entries df user d"
    and "set (List.map_filter (\<lambda>r. dt_date (cell_at df r ''Date'')) W) =
         {d \<in> set [e - 6 .. e]. matching_entries df user d \<noteq> []}"
proof -
  show "e - 6 \<le> d \<Longrightarrow> d \<le> e \<Longrightarrow>
         filter (\<lambda>r. dt_date (cell_at df r ''Date'') = Some d) W = matching_entries df user d"
    unfolding W_def matching_entries_def filter_filter
    by (rule filter_cong) (auto simp: in_window_def)
  show "set (List.map_filter (\<lambda>r. dt_date (cell_at df r ''Date'')) W) =
         {d \<in> set [e - 6 .. e]. matching_entries df user d \<noteq> []}"
    unfolding W_def matching_entries_def
    by (force simp: List.map_filter_def in_window_def filter_empty_conv image_iff split: option.splits)
qed

lemma weekly_spec_empty:
  "weekly_trend_spec df user e = [] \<longleftrightarrow>
   filter (\<lambda>r. in_window (e - 6) e (cell_at df r ''Date''))
     (filter (\<lambda>r. cell_at df r ''User'' = Str user) (rows df)) = []"
  unfolding weekly_trend_spec_def matching_entries_def
  by (auto simp: filter_empty_conv in_window_def split: option.splits)

lemma cell_at_rows: "cell_at (df\<lparr>rows := rs\<rparr>) = cell_at df"
  by (simp add: fun_eq_iff cell_at_def)

lemma groupby_weekly:
  fixes df user e
  assumes num: "list_all (\<lambda>r. numeric_or_missing (cell_at df r ''calories_kcal''))
                  (weekly_rows df user e)"
  defines "W \<equiv> filter (\<lambda>r. in_window (e - 6) e (cell_at df r ''Date''))
                  (filter (\<lambda>r. cell_at df r ''User'' = Str user) (rows df))"
  shows "groupby_date_sum (df\<lparr>rows := W\<rparr>) ''calories_kcal'' = Inr (weekly_trend_spec df user e)"
proof -
  let ?P = "\<lambda>d. matching_entries df user d \<noteq> []"
  let ?keys = "sort (remdups (List.map_filter (\<lambda>r. dt_date (cell_at df r ''Date'')) W))"
  have keys: "?keys = filter ?P [e - 6 .. e]"
    unfolding W_def by (rule sorted_distinct_keys) (rule weekly_groups(2))
  have grp: "(case series_sum (map (\<lambda>r. cell_at df r ''calories_kcal'')
               (filter (\<lambda>r. dt_date (cell_at df r ''Date'') = Some k) W)) of
          Inl e \<Rightarrow> Inl e
        | Inr s \<Rightarrow> Inr (k, s)) =
        Inr (k, sum_list (map (\<lambda>r. calories_of (cell_at df r ''calories_kcal'')) (matching_entries df user k)))"
    if "k \<in> set (filter ?P [e - 6 .. e])" for k
  proof -
    from that have "e - 6 \<le> k" "k \<le> e" by simp_all
    then have g: "filter (\<lambda>r. dt_date (cell_at df r ''Date'') = Some k) W = matching_entries df user k"
      unfolding W_def by (rule weekly_groups(1))
    have "set (matching_entries df user k) \<subseteq> set (weekly_rows df user e)"
      unfolding g [symmetric] W_def weekly_rows_def by auto
    then have "list_all numeric_or_missing (map (\<lambda>r. cell_at df r ''calories_kcal'') (matching_entries df user k))"
      using num by (auto simp: list_all_iff)
    from series_sum_numeric [OF this] show ?thesis
      by (simp add: g o_def)
  qed
  let ?G = "\<lambda>k. case series_sum (map (\<lambda>r. cell_at df r ''calories_kcal'')
               (filter (\<lambda>r. dt_date (cell_at df r ''Date'') = Some k) W)) of
          Inl e \<Rightarrow> Inl e
        | Inr s \<Rightarrow> Inr (k, s)"
  let ?S = "\<lambda>k. (k, sum_list (map (\<lambda>r. calories_of (cell_at df r ''calories_kcal''))
                         (matching_entries df user k)))"
  have "groupby_date_sum (df\<lparr>rows := W\<rparr>) ''calories_kcal'' = collect (map ?G ?keys)"
    by (simp add: groupby_date_sum_def cell_at_rows)
  also have "\<dots> = collect (map ?G (filter ?P [e - 6 .. e]))"
    by (simp only: keys)
  also have "map ?G (filter ?P [e - 6 .. e]) = map (\<lambda>k. Inr (?S k)) (filter ?P [e - 6 .. e])"
    by (rule map_cong [OF refl grp])
  also have "collect \<dots> = Inr (map ?S (filter ?P [e - 6 .. e]))"
    by (rule collect_Inr)
  finally show ?thesis
    by (simp add: weekly_trend_spec_def)
qed

text \<open>
  Claim C4. For every user and end date, on an empty snapshot and on every snapshot
  where the calories of the user's entries in the window are numbers: the weekly trend
  reads exactly the 7 calendar days \<open>end_date - 6, \<dots>, end_date\<close>, has one entry (day, sum
  of the calories) for each of these days with a matching log entry, in the order of the
  days and none for a day without entries, and its average is the sum of these daily
  sums divided by the number of days that are present. With no entry in the window the
  program shows a notice and no chart.
\<close>

theorem weekly_trend_matches_spec:
  assumes "numeric_logs logs_df user e"
  shows "(weekly_trend_spec logs_df user e = [] \<longrightarrow>
            (\<exists>msg. display_weekly_trend logs_df user e = Inr (Notice msg))) \<and>
         (weekly_trend_spec logs_df user e \<noteq> [] \<longrightarrow>
            display_weekly_trend logs_df user e =
              Inr (Trend (weekly_trend_spec logs_df user e)
                         (sum_list (map snd (weekly_trend_spec logs_df user e)) /
                          real (length (weekly_trend_spec logs_df user e))))) \<and>
         map fst (weekly_trend_spec logs_df user e) =
           filter (\<lambda>d. matching_entries logs_df user d \<noteq> []) [e - 6 .. e] \<and>
         length [e - 6 .. e] = 7 \<and>
         length (weekly_trend_spec logs_df user e) \<le> 7"
proof -
  let ?U = "filter (\<lambda>r. cell_at logs_df r ''User'' = Str user) (rows logs_df)"
  let ?W = "filter (\<lambda>r. in_window (e - 6) e (cell_at logs_df r ''Date'')) ?U"
  let ?avg = "sum_list (map snd (weekly_trend_spec logs_df user e)) /
              real (length (weekly_trend_spec logs_df user e))"
  have emp: "weekly_trend_spec logs_df user e = [] \<longleftrightarrow> ?W = []"
    by (rule weekly_spec_empty)
  have 12: "(weekly_trend_spec logs_df user e = [] \<longrightarrow>
            (\<exists>msg. display_weekly_trend logs_df user e = Inr (Notice msg))) \<and>
         (weekly_trend_spec logs_df user e \<noteq> [] \<longrightarrow>
            display_weekly_trend logs_df user e =
              Inr (Trend (weekly_trend_spec logs_df user e) ?avg))"
  proof (cases "df_empty logs_df")
    case True
    have "?U = []"
    proof (cases "rows logs_df = []")
      case True
      then show ?thesis by simp
    next
      case False
      with \<open>df_empty logs_df\<close> have "columns logs_df = []" by (simp add: df_empty_def)
      then show ?thesis by (simp add: cell_at_def)
    qed
    then have "weekly_trend_spec logs_df user e = []" by (simp add: emp)
    moreover have "display_weekly_trend logs_df user e =
        Inr (Notice ''Log some meals to see your weekly trend.'')"
      using True by (simp add: display_weekly_trend_def)
    ultimately show ?thesis by simp
  next
    case False
    with assms have cols: "''User'' \<in> set (columns logs_df)" "''Date'' \<in> set (columns logs_df)"
        "''calories_kcal'' \<in> set (columns logs_df)" "datetimelike logs_df ''Date''"
      and num: "list_all (\<lambda>r. numeric_or_missing (cell_at logs_df r ''calories_kcal''))
                  (weekly_rows logs_df user e)"
      by (simp_all add: numeric_logs_def)
    have ne: "columns logs_df \<noteq> []" using cols by auto
    have gb: "groupby_date_sum (logs_df\<lparr>rows := ?W\<rparr>) ''calories_kcal'' =
              Inr (weekly_trend_spec logs_df user e)"
      by (rule groupby_weekly [OF num])
    have 1: "weekly_trend_spec logs_df user e = [] \<longrightarrow>
              (\<exists>msg. display_weekly_trend logs_df user e = Inr (Notice msg))"
      using cols ne by (auto simp: emp display_weekly_trend_def df_empty_def Let_def cell_at_rows)
    have W: "?W \<noteq> [] \<Longrightarrow> ?U \<noteq> [] \<and> rows logs_df \<noteq> []"
      by (auto simp: filter_empty_conv)
    have 2: "weekly_trend_spec logs_df user e \<noteq> [] \<longrightarrow>
              display_weekly_trend logs_df user e =
                Inr (Trend (weekly_trend_spec logs_df user e) ?avg)"
    proof
      assume "weekly_trend_spec logs_df user e \<noteq> []"
      then have w: "?W \<noteq> []" by (simp add: emp)
      with W have u: "?U \<noteq> []" "rows logs_df \<noteq> []" by blast+
      show "display_weekly_trend logs_df user e =
                Inr (Trend (weekly_trend_spec logs_df user e) ?avg)"
        using cols ne u w gb
        by (simp add: display_weekly_trend_def df_empty_def Let_def cell_at_rows mean_def)
    qed
    from 1 2 show ?thesis by blast
  qed
  have 3: "map fst (weekly_trend_spec logs_df user e) =
           filter (\<lambda>d. matching_entries logs_df user d \<noteq> []) [e - 6 .. e]"
    by (simp add: weekly_trend_spec_def o_def)
  have 7: "length [e - 6 .. e] = 7" by simp
  have "length (filter (\<lambda>d. matching_entries logs_df user d \<noteq> []) [e - 6 .. e]) \<le> length [e - 6 .. e]"
    by (rule length_filter_le)
  then have 4: "length (weekly_trend_spec logs_df user e) \<le> 7"
    by (simp add: weekly_trend_spec_def)
  from 12 3 7 4 show ?thesis by blast
qed

text \<open>
  The example of the specification: 300 kcal on day \<open>D - 2\<close> and 500 kcal on day \<open>D\<close>
  give exactly two entries and the average 400 (here \<open>D = 100\<close>); the snapshot also holds
  an entry of the user before the window and a malformed entry of another user.
\<close>

theorem weekly_trend_matches_spec_witness:
  "numeric_logs sample_week ''Suyash'' 100 \<and>
   display_weekly_trend sample_week ''Suyash'' 100 = Inr (Trend [(98, 300), (100, 500)] 400)"
proof -
  have h: "numeric_logs sample_week ''Suyash'' 100"
    by (simp add: numeric_logs_def weekly_rows_def sample_week_def datetimelike_def cell_at_def
        in_window_def)
  have up: "[94 .. 100::int] = [94, 95, 96, 97, 98, 99, 100]"
    by (simp add: upto_rec1)
  have spec: "weekly_trend_spec sample_week ''Suyash'' 100 = [(98, 300), (100, 500)]"
    by (simp add: weekly_trend_spec_def up matching_entries_def sample_week_def cell_at_def)
  show ?thesis
    using h weekly_trend_matches_spec [OF h]
    by (simp add: spec)
qed

text \<open>
  Claim C7 on the code. A log entry whose \<open>calories_kcal\<close> is not a number (here a blank
  cell, which the worksheet gives as the empty text) counts 0 in the daily totals, but
  the weekly trend sums the column as fetched, without \<^verbatim>\<open>pd.to_numeric\<close>, and raises
  TypeError instead of counting 0.
\<close>

theorem weekly_trend_malformed_raises:
  "display_weekly_trend sample_malformed ''Suyash'' 100 = Inl TypeError \<and>
   daily_summary (\<lambda>s. None) sample_malformed ''Suyash'' 100 =
     Inr \<lparr>total_calories = 300, total_protein = 0, total_carbs = 0, total_fat = 0, total_fiber = 0\<rparr>"
proof -
  have h: "logs_snapshot sample_malformed"
    by (simp add: logs_snapshot_def sample_malformed_def datetimelike_def cell_at_def)
  have d: "daily_summary (\<lambda>s. None) sample_malformed ''Suyash'' 100 =
     Inr \<lparr>total_calories = 300, total_protein = 0, total_carbs = 0, total_fat = 0, total_fiber = 0\<rparr>"
    using daily_summary_eq [OF h, of "\<lambda>s. None" "''Suyash''" 100]
    by (simp add: matching_entries_def field_value_def sample_malformed_def cell_at_def)
  have w: "display_weekly_trend sample_malformed ''Suyash'' 100 = Inl TypeError"
    by (simp add: display_weekly_trend_def sample_malformed_def df_empty_def datetimelike_def
        cell_at_def in_window_def groupby_date_sum_def List.map_filter_def Let_def)
  from w d show ?thesis by simp
qed

section \<open>Saving a calorie goal\<close>

lemma find_in_column1_None:
  "find_in_column1 f q ws = None \<longleftrightarrow> (\<forall>r \<in> set ws. first_text f r \<noteq> q)"
  by (induction ws) auto

lemma find_in_column1_Some:
  "find_in_column1 f q ws = Some n \<Longrightarrow>
   1 \<le> n \<and> n \<le> length ws \<and> first_text f (ws ! (n - 1)) = q \<and>
   (\<forall>i < n - 1. first_text f (ws ! i) \<noteq> q)"
proof (induction ws arbitrary: n)
  case Nil
  then show ?case by simp
next
  case (Cons r rs)
  show ?case
  proof (cases "first_text f r = q")
    case True
    with Cons.prems show ?thesis by simp
  next
    case False
    with Cons.prems obtain m where m: "find_in_column1 f q rs = Some m" "n = Suc m"
      by auto
    from Cons.IH [OF m(1)] have ih: "1 \<le> m" "m \<le> length rs" "first_text f (rs ! (m - 1)) = q"
      "\<forall>i < m - 1. first_text f (rs ! i) \<noteq> q" by simp_all
    have "\<forall>i < n - 1. first_text f ((r # rs) ! i) \<noteq> q"
    proof (intro allI impI)
      fix i assume "i < n - 1"
      then show "first_text f ((r # rs) ! i) \<noteq> q"
        using False ih(4) m(2) ih(1) by (cases i) auto
    qed
    with ih m(2) show ?thesis by (cases m) auto
  qed
qed

lemma find_in_column1_texts:
  "map (first_text f) ws = map (first_text f) ws' \<Longrightarrow>
   find_in_column1 f q ws = find_in_column1 f q ws'"
proof (induction ws arbitrary: ws')
  case Nil
  then show ?case by simp
next
  case (Cons r rs)
  then obtain r' rs' where "ws' = r' # rs'" by (cases ws') auto
  with Cons show ?case by auto
qed

lemma first_text_set_cell: "0 < j \<Longrightarrow> first_text f (set_cell r j v) = first_text f r"
  by (cases r; cases j) (simp_all add: first_text_def set_cell_def)

lemma texts_update_cell:
  "1 < col \<Longrightarrow> map (first_text f) (update_cell ws row col v) = map (first_text f) ws"
  by (auto simp: update_cell_def map_update first_text_set_cell list_eq_iff_nth_eq nth_list_update)

lemma set_cell_twice: "set_cell (set_cell r j v) j v = set_cell r j v"
  by (simp add: set_cell_def)

lemma update_cell_twice:
  "update_cell (update_cell ws row col v) row col v = update_cell ws row col v"
proof (cases "1 \<le> row \<and> row \<le> length ws \<and> 1 \<le> col")
  case True
  then have "row - 1 < length ws" by arith
  with True show ?thesis by (simp add: update_cell_def set_cell_twice)
next
  case False
  then have "update_cell ws row col v = ws" unfolding update_cell_def by (rule if_not_P)
  then show ?thesis by simp
qed

lemma length_update_cell: "length (update_cell ws row col v) = length ws"
  by (simp add: update_cell_def)

lemma count_texts:
  "length (filter (\<lambda>r. first_text f r = q) ws) = length (filter (\<lambda>t. t = q) (map (first_text f) ws))"
  by (induction ws) simp_all

lemma find_in_column1_append_new:
  assumes "find_in_column1 f q ws = None" and "first_text f r = q"
  shows "find_in_column1 f q (ws @ [r]) = Some (Suc (length ws))"
  using assms by (induction ws) (auto split: if_splits)

lemma update_cell_appended:
  "update_cell (ws @ [[a, b, v]]) (Suc (length ws)) 3 v = ws @ [[a, b, v]]"
  by (simp add: update_cell_def set_cell_def)

lemma count_found_pos:
  "find_in_column1 f q ws = Some n \<Longrightarrow> 1 \<le> length (filter (\<lambda>r. first_text f r = q) ws)"
proof -
  assume "find_in_column1 f q ws = Some n"
  then have "\<not> (\<forall>r \<in> set ws. first_text f r \<noteq> q)"
    using find_in_column1_None [of f q ws] by simp
  then have "filter (\<lambda>r. first_text f r = q) ws \<noteq> []"
    by (simp add: filter_empty_conv)
  then show ?thesis by (cases "filter (\<lambda>r. first_text f r = q) ws") simp_all
qed

text \<open>
  Claim C3. With the store reachable and at most one Settings row for the user, saving
  the same goal twice in succession leaves exactly one row for the user, and the second
  save changes nothing. The lookup searches the first column for the user. When a row is
  found, the save writes the goal into its value cell (the third): afterwards that cell
  holds the goal, the other cells of the row and all other rows are as they were, and
  the sheet has the length it had. A row \<open>[user, Calorie Goal, goal]\<close> is appended only
  when none is found.
\<close>

theorem set_calorie_goal_twice:
  assumes "online w"
    and "length (filter (\<lambda>r. first_text (show_number env) r = user) (settings_ws w)) \<le> 1"
  shows "fst (set_calorie_goal env user g w) \<and>
         fst (set_calorie_goal env user g (snd (set_calorie_goal env user g w))) \<and>
         settings_ws (snd (set_calorie_goal env user g (snd (set_calorie_goal env user g w)))) =
           settings_ws (snd (set_calorie_goal env user g w)) \<and>
         length (filter (\<lambda>r. first_text (show_number env) r = user)
           (settings_ws (snd (set_calorie_goal env user g (snd (set_calorie_goal env user g w)))))) = 1 \<and>
         (case find_in_column1 (show_number env) user (settings_ws w) of
            Some row \<Rightarrow>
              first_text (show_number env) (settings_ws w ! (row - 1)) = user \<and>
              settings_ws (snd (set_calorie_goal env user g w)) =
                (settings_ws w)[row - 1 := set_cell (settings_ws w ! (row - 1)) 2 (Num (of_int g))] \<and>
              length (settings_ws (snd (set_calorie_goal env user g w))) = length (settings_ws w) \<and>
              settings_ws (snd (set_calorie_goal env user g w)) ! (row - 1) ! 2 = Num (of_int g) \<and>
              (\<forall>j < length (settings_ws w ! (row - 1)). j \<noteq> 2 \<longrightarrow>
                 settings_ws (snd (set_calorie_goal env user g w)) ! (row - 1) ! j =
                 settings_ws w ! (row - 1) ! j) \<and>
              (\<forall>i < length (settings_ws w). i \<noteq> row - 1 \<longrightarrow>
                 settings_ws (snd (set_calorie_goal env user g w)) ! i = settings_ws w ! i)
          | None \<Rightarrow>
              (\<forall>r \<in> set (settings_ws w). first_text (show_number env) r \<noteq> user) \<and>
              settings_ws (snd (set_calorie_goal env user g w)) =
                settings_ws w @ [[Str user, Str ''Calorie Goal'', Num (of_int g)]])"
proof (cases "find_in_column1 (show_number env) user (settings_ws w)")
  case None
  let ?new = "[Str user, Str ''Calorie Goal'', Num (of_int g)]"
  let ?w1 = "snd (set_calorie_goal env user g w)"
  have ft: "first_text (show_number env) ?new = user" by (simp add: first_text_def)
  have w1: "set_calorie_goal env user g w = (True, w\<lparr>settings_ws := settings_ws w @ [?new]\<rparr>)"
    using assms(1) None by (simp add: set_calorie_goal_def append_row_def)
  have f1: "find_in_column1 (show_number env) user (settings_ws w @ [?new]) =
            Some (Suc (length (settings_ws w)))"
    by (rule find_in_column1_append_new [OF None ft])
  have w2: "set_calorie_goal env user g (w\<lparr>settings_ws := settings_ws w @ [?new]\<rparr>) =
            (True, w\<lparr>settings_ws := settings_ws w @ [?new]\<rparr>)"
    using assms(1) f1 by (simp add: set_calorie_goal_def update_cell_appended)
  have none: "\<forall>r \<in> set (settings_ws w). first_text (show_number env) r \<noteq> user"
    using None by (simp add: find_in_column1_None)
  then have "filter (\<lambda>r. first_text (show_number env) r = user) (settings_ws w) = []"
    by (simp add: filter_empty_conv)
  then have cnt: "length (filter (\<lambda>r. first_text (show_number env) r = user)
                    (settings_ws w @ [?new])) = 1"
    using ft by simp
  show ?thesis
    using None none cnt by (simp add: w1 w2)
next
  case (Some row)
  let ?v = "Num (of_int g)"
  let ?w1 = "snd (set_calorie_goal env user g w)"
  let ?ws1 = "update_cell (settings_ws w) row 3 ?v"
  from find_in_column1_Some [OF Some]
  have row: "1 \<le> row" "row \<le> length (settings_ws w)"
    "first_text (show_number env) (settings_ws w ! (row - 1)) = user" by simp_all
  have w1: "set_calorie_goal env user g w = (True, w\<lparr>settings_ws := ?ws1\<rparr>)"
    using assms(1) Some by (simp add: set_calorie_goal_def)
  have texts: "map (first_text (show_number env)) ?ws1 = map (first_text (show_number env)) (settings_ws w)"
    by (rule texts_update_cell) simp
  have f1: "find_in_column1 (show_number env) user ?ws1 = Some row"
    using find_in_column1_texts [OF texts] Some by simp
  have w2: "set_calorie_goal env user g (w\<lparr>settings_ws := ?ws1\<rparr>) = (True, w\<lparr>settings_ws := ?ws1\<rparr>)"
    using assms(1) f1 by (simp add: set_calorie_goal_def update_cell_twice)
  have "length (filter (\<lambda>r. first_text (show_number env) r = user) ?ws1) =
        length (filter (\<lambda>r. first_text (show_number env) r = user) (settings_ws w))"
    by (simp only: count_texts texts)
  with count_found_pos [OF Some] assms(2)
  have cnt: "length (filter (\<lambda>r. first_text (show_number env) r = user) ?ws1) = 1"
    by simp
  have upd: "?ws1 = (settings_ws w)[row - 1 := set_cell (settings_ws w ! (row - 1)) 2 ?v]"
    using row by (simp add: update_cell_def)
  have lt: "row - 1 < length (settings_ws w)" using row(1,2) by arith
  have cell: "?ws1 ! (row - 1) ! 2 = ?v"
    using lt by (simp add: upd set_cell_def)
  have others: "\<forall>j < length (settings_ws w ! (row - 1)). j \<noteq> 2 \<longrightarrow>
                 ?ws1 ! (row - 1) ! j = settings_ws w ! (row - 1) ! j"
    using lt by (simp add: upd set_cell_def nth_append)
  have rows: "\<forall>i < length (settings_ws w). i \<noteq> row - 1 \<longrightarrow> ?ws1 ! i = settings_ws w ! i"
    by (simp add: upd)
  have len: "length ?ws1 = length (settings_ws w)" by (rule length_update_cell)
  have w1': "settings_ws (snd (set_calorie_goal env user g w)) = ?ws1" by (simp add: w1)
  have twice: "settings_ws (snd (set_calorie_goal env user g (snd (set_calorie_goal env user g w)))) = ?ws1"
    by (simp add: w1 w2)
  have ok: "fst (set_calorie_goal env user g w)"
    "fst (set_calorie_goal env user g (snd (set_calorie_goal env user g w)))"
    by (simp_all add: w1 w2)
  show ?thesis
    unfolding twice w1' Some option.case
    using ok row(3) cnt upd len cell others rows by blast
qed

text \<open>
  The theorem at the sample state: a goal saved twice for a user without a row (the row
  is appended once), and for the user whose row exists (its value cell is overwritten in
  place, 2000 by 1800).
\<close>

theorem set_calorie_goal_twice_witness:
  "online sample_world \<and>
   length (filter (\<lambda>r. first_text (show_number sample_env) r = ''Divyanshi'')
     (settings_ws sample_world)) \<le> 1 \<and>
   length (filter (\<lambda>r. first_text (show_number sample_env) r = ''Suyash'')
     (settings_ws sample_world)) \<le> 1 \<and>
   settings_ws (snd (set_calorie_goal sample_env ''Divyanshi'' 1800
     (snd (set_calorie_goal sample_env ''Divyanshi'' 1800 sample_world)))) =
     [settings_header, [Str ''Suyash'', Str ''Calorie Goal'', Num 2000],
      [Str ''Divyanshi'', Str ''Calorie Goal'', Num 1800]] \<and>
   settings_ws (snd (set_calorie_goal sample_env ''Suyash'' 1800
     (snd (set_calorie_goal sample_env ''Suyash'' 1800 sample_world)))) =
     [settings_header, [Str ''Suyash'', Str ''Calorie Goal'', Num 1800]]"
proof -
  have h1: "online sample_world" by (simp add: sample_world_def)
  have h2: "length (filter (\<lambda>r. first_text (show_number sample_env) r = ''Divyanshi'')
     (settings_ws sample_world)) \<le> 1"
    by (simp add: sample_world_def sample_env_def settings_header_def first_text_def)
  have h3: "length (filter (\<lambda>r. first_text (show_number sample_env) r = ''Suyash'')
     (settings_ws sample_world)) \<le> 1"
    by (simp add: sample_world_def sample_env_def settings_header_def first_text_def)
  have "settings_ws (snd (set_calorie_goal sample_env ''Divyanshi'' 1800
     (snd (set_calorie_goal sample_env ''Divyanshi'' 1800 sample_world)))) =
     settings_ws (snd (set_calorie_goal sample_env ''Divyanshi'' 1800 sample_world))"
    using set_calorie_goal_twice [OF h1 h2, of 1800] by blast
  moreover have "settings_ws (snd (set_calorie_goal sample_env ''Divyanshi'' 1800 sample_world)) =
     [settings_header, [Str ''Suyash'', Str ''Calorie Goal'', Num 2000],
      [Str ''Divyanshi'', Str ''Calorie Goal'', Num 1800]]"
    by (simp add: set_calorie_goal_def sample_world_def sample_env_def settings_header_def
        first_text_def append_row_def)
  moreover have "settings_ws (snd (set_calorie_goal sample_env ''Suyash'' 1800
     (snd (set_calorie_goal sample_env ''Suyash'' 1800 sample_world)))) =
     settings_ws (snd (set_calorie_goal sample_env ''Suyash'' 1800 sample_world))"
    using set_calorie_goal_twice [OF h1 h3, of 1800] by blast
  moreover have "settings_ws (snd (set_calorie_goal sample_env ''Suyash'' 1800 sample_world)) =
     [settings_header, [Str ''Suyash'', Str ''Calorie Goal'', Num 1800]]"
    by (simp add: set_calorie_goal_def sample_world_def sample_env_def settings_header_def
        first_text_def update_cell_def set_cell_def)
  ultimately show ?thesis using h1 h2 h3 by simp
qed

section \<open>Logging a meal\<close>

lemma log_meal_submit_blank:
  "strip items_input = [] \<Longrightarrow>
   log_meal_submit env ts meal d items_input w = (None, w\<lparr>shown := shown w @ [EnterItems meal]\<rparr>)"
  by (simp add: log_meal_submit_def)



lemma total_field_JNum:
  "dict_get totals k (JNum 0) = Inr (JNum x) \<Longrightarrow> total_field env totals k = Inr x"
  by (simp add: total_field_def)





lemma data_cache_log_to_google_sheet:
  "data_cache (snd (log_to_google_sheet r w)) = data_cache w"
  by (simp add: log_to_google_sheet_def)

lemma data_cache_log_meal_submit:
  "data_cache (snd (log_meal_submit env ts meal d inp w)) = data_cache w"
  by (simp add: log_meal_submit_def Let_def data_cache_log_to_google_sheet split: sum.splits)

lemma sample_estimate: "get_nutrition_data sample_env p = Inr ''reply''"
  by (simp add: sample_env_def)

lemma sample_loads: "json_loads sample_env ''reply'' = Inr sample_reply"
  by (simp add: sample_env_def)

lemma sample_user: "ss_user sample_world = ''Suyash''"
  by (simp add: sample_world_def)

lemma sample_online: "online sample_world"
  by (simp add: sample_world_def)

lemma sample_logs_ws: "length (logs_ws sample_world) = 1"
  by (simp add: sample_world_def)

text \<open>
  Claim C8. When the input of a meal form is empty or only white space, the handler
  shows the error and does nothing else: no prompt goes to the estimator, no entry is
  built, neither worksheet is written, and the session's frames and the cache are as
  they were.
\<close>

theorem blank_meal_form_no_action:
  assumes "strip items_input = []"
  shows "log_meal_submit env ts meal d items_input w =
           (None, w\<lparr>shown := shown w @ [EnterItems meal]\<rparr>) \<and>
         prompts (snd (log_meal_submit env ts meal d items_input w)) = prompts w \<and>
         logs_ws (snd (log_meal_submit env ts meal d items_input w)) = logs_ws w \<and>
         settings_ws (snd (log_meal_submit env ts meal d items_input w)) = settings_ws w \<and>
         ss_logs_df (snd (log_meal_submit env ts meal d items_input w)) = ss_logs_df w \<and>
         ss_settings_df (snd (log_meal_submit env ts meal d items_input w)) = ss_settings_df w \<and>
         data_cache (snd (log_meal_submit env ts meal d items_input w)) = data_cache w"
  by (simp add: log_meal_submit_blank [OF assms])

text \<open>The theorem at an input of two blanks, a line feed and a tab.\<close>

theorem blank_meal_form_no_action_witness:
  "strip ([CHR '' '', CHR '' '', CHR 0x0A, CHR 0x09]) = [] \<and>
   log_meal_submit sample_env ''ts'' ''Lunch'' 100 [CHR '' '', CHR '' '', CHR 0x0A, CHR 0x09] sample_world =
     (None, sample_world\<lparr>shown := [EnterItems ''Lunch'']\<rparr>)"
proof -
  have h: "strip ([CHR '' '', CHR '' '', CHR 0x0A, CHR 0x09]) = []"
    by (simp add: strip_def is_space_def)
  have "shown sample_world = []" by (simp add: sample_world_def)
  with h blank_meal_form_no_action [OF h, of sample_env "''ts''" "''Lunch''" 100 sample_world]
  show ?thesis by simp
qed

text \<open>
  Claim C2 on the code. After a goal is saved the cache entry is gone, but the meal
  handler never clears it: after a meal is logged and written to the Logs sheet, the
  cache still holds the frames fetched before, and a fetch 30 seconds later returns them,
  without the new entry.
\<close>

theorem meal_log_keeps_cache:
  "fst (log_meal_submit sample_env ''ts'' ''Breakfast'' 100 ''2 idli'' sample_world) = None \<and>
   length (logs_ws (snd (log_meal_submit sample_env ''ts'' ''Breakfast'' 100 ''2 idli'' sample_world))) = 2 \<and>
   data_cache (snd (log_meal_submit sample_env ''ts'' ''Breakfast'' 100 ''2 idli'' sample_world)) =
     Some (0, DataFrame_empty, sample_settings_df) \<and>
   fst (fetch_all_data sample_env 30
          (snd (log_meal_submit sample_env ''ts'' ''Breakfast'' 100 ''2 idli'' sample_world))) =
     (DataFrame_empty, sample_settings_df) \<and>
   data_cache (save_goal_submit sample_env 1800 sample_world) = None"
proof -
  let ?w = "snd (log_meal_submit sample_env ''ts'' ''Breakfast'' 100 ''2 idli'' sample_world)"
  have s: "strip ''2 idli'' = ''2 idli''"
    by (simp add: strip_def is_space_def)
  have items: "items_of ''2 idli'' = [''2 idli'']"
    by (simp add: items_of_def s)
  have entry: "new_row_dict sample_env ''Suyash'' ''ts'' ''Breakfast'' 100 [''2 idli''] sample_reply =
      Inr [(''User'', Str ''Suyash''), (''Timestamp'', Str ''ts''),
           (''Date'', Str ''2024-01-05''), (''Meal'', Str ''Breakfast''),
           (''items_text'', Str ''2 idli''),
           (''calories_kcal'', Num 360.5), (''protein_g'', Num 13.2), (''carbs_g'', Num 58),
           (''fat_g'', Num 8.5), (''fiber_g'', Num 0), (''json_data'', Str ''dump'')]"
    by (simp add: new_row_dict_def total_field_def sample_reply_def sample_env_def)
  have run: "fst (log_meal_submit sample_env ''ts'' ''Breakfast'' 100 ''2 idli'' sample_world) = None \<and>
             length (logs_ws ?w) = 2"
    by (simp add: log_meal_submit_def Let_def s items sample_estimate sample_loads sample_user
        sample_online sample_logs_ws entry log_to_google_sheet_def append_row_def)
  have cache: "data_cache ?w = Some (0, DataFrame_empty, sample_settings_df)"
    by (simp add: data_cache_log_meal_submit) (simp add: sample_world_def)
  have fetch: "fst (fetch_all_data sample_env 30 ?w) = (DataFrame_empty, sample_settings_df)"
    by (simp add: fetch_all_data_def cache)
  have goal: "data_cache (save_goal_submit sample_env 1800 sample_world) = None"
    by (simp add: save_goal_submit_def set_calorie_goal_def Let_def sample_world_def sample_env_def
        settings_header_def first_text_def split: option.splits)
  from run cache fetch goal show ?thesis by simp
qed








section \<open>Reading a saved goal back\<close>

lemma length_pad_row: "n \<le> length (pad_row n r)"
  by (simp add: pad_row_def)

lemma three_cells:
  assumes "3 \<le> length p"
  obtains a b c rest where "p = a # b # c # rest"
proof -
  from assms obtain a p1 where p: "p = a # p1" by (cases p) auto
  with assms obtain b p2 where p1: "p1 = b # p2" by (cases p1) auto
  with assms p obtain c p3 where "p2 = c # p3" by (cases p2) auto
  with p p1 that show ?thesis by simp
qed

lemma settings_record:
  assumes "3 \<le> length p"
  shows "map fst (zip [''User'', ''Setting'', ''Value''] p) = [''User'', ''Setting'', ''Value'']"
    and "map_of (rev (zip [''User'', ''Setting'', ''Value''] p)) ''User'' = Some (p ! 0)"
    and "map_of (rev (zip [''User'', ''Setting'', ''Value''] p)) ''Setting'' = Some (p ! 1)"
    and "map_of (rev (zip [''User'', ''Setting'', ''Value''] p)) ''Value'' = Some (p ! 2)"
proof -
  from assms obtain a b c rest where p: "p = a # b # c # rest" by (rule three_cells)
  show "map fst (zip [''User'', ''Setting'', ''Value''] p) = [''User'', ''Setting'', ''Value'']"
    by (simp add: p)
  show "map_of (rev (zip [''User'', ''Setting'', ''Value''] p)) ''User'' = Some (p ! 0)"
    by (simp add: p)
  show "map_of (rev (zip [''User'', ''Setting'', ''Value''] p)) ''Setting'' = Some (p ! 1)"
    by (simp add: p)
  show "map_of (rev (zip [''User'', ''Setting'', ''Value''] p)) ''Value'' = Some (p ! 2)"
    by (simp add: p)
qed

lemma settings_frame:
  assumes "body \<noteq> []"
  shows "DataFrame_records (get_all_records f (settings_header # body)) =
         \<lparr>columns = [''User'', ''Setting'', ''Value''],
          rows = map (\<lambda>r. map_of (rev (zip [''User'', ''Setting'', ''Value''] (pad_row 3 r)))) body\<rparr>"
proof -
  from assms obtain r rs where body: "body = r # rs" by (cases body) auto
  have "3 \<le> length (pad_row 3 r)" by (rule length_pad_row)
  then have "map fst (zip [''User'', ''Setting'', ''Value''] (pad_row 3 r)) =
             [''User'', ''Setting'', ''Value'']"
    by (rule settings_record(1))
  moreover have "get_all_records f (settings_header # body) =
                 map (\<lambda>r. zip [''User'', ''Setting'', ''Value''] (pad_row 3 r)) body"
    by (simp add: get_all_records_def settings_header_def numeral_3_eq_3)
  ultimately show ?thesis
    by (simp add: DataFrame_records_def body)
qed

lemma case_filter_map:
  "(case filter Q (map h xs) of [] \<Rightarrow> a | y # ys \<Rightarrow> F y) =
   (case filter (\<lambda>x. Q (h x)) xs of [] \<Rightarrow> a | x # ys \<Rightarrow> F (h x))"
  by (induction xs) simp_all

lemma get_calorie_goal_sheet:
  assumes "body \<noteq> []"
  shows "get_calorie_goal g (DataFrame_records (get_all_records f (settings_header # body))) user =
         (case filter (\<lambda>r. pad_row 3 r ! 0 = Str user \<and> pad_row 3 r ! 1 = Str ''Calorie Goal'') body of
            [] \<Rightarrow> Inr 2000
          | r # rs \<Rightarrow> py_int g (pad_row 3 r ! 2))"
proof -
  let ?h = "\<lambda>r. map_of (rev (zip [''User'', ''Setting'', ''Value''] (pad_row 3 r)))"
  let ?df = "\<lparr>columns = [''User'', ''Setting'', ''Value''], rows = map ?h body\<rparr>"
  have cells: "cell_at ?df (?h r) ''User'' = pad_row 3 r ! 0"
    "cell_at ?df (?h r) ''Setting'' = pad_row 3 r ! 1"
    "cell_at ?df (?h r) ''Value'' = pad_row 3 r ! 2" for r
    using settings_record(2-4) [OF length_pad_row [of 3 r]]
    by (simp_all add: cell_at_def)
  have "get_calorie_goal g ?df user =
        (case filter (\<lambda>r. cell_at ?df r ''User'' = Str user \<and>
                          cell_at ?df r ''Setting'' = Str ''Calorie Goal'') (map ?h body) of
           [] \<Rightarrow> Inr 2000
         | r # rs \<Rightarrow> py_int g (cell_at ?df r ''Value''))"
    using assms by (simp add: get_calorie_goal_def df_empty_def cong: list.case_cong)
  also have "\<dots> =
        (case filter (\<lambda>r. cell_at ?df (?h r) ''User'' = Str user \<and>
                          cell_at ?df (?h r) ''Setting'' = Str ''Calorie Goal'') body of
           [] \<Rightarrow> Inr 2000
         | r # rs \<Rightarrow> py_int g (cell_at ?df (?h r) ''Value''))"
    by (rule case_filter_map)
  also have "\<dots> =
        (case filter (\<lambda>r. pad_row 3 r ! 0 = Str user \<and> pad_row 3 r ! 1 = Str ''Calorie Goal'') body of
           [] \<Rightarrow> Inr 2000
         | r # rs \<Rightarrow> py_int g (pad_row 3 r ! 2))"
    by (simp only: cells)
  finally show ?thesis by (simp only: settings_frame [OF assms])
qed

lemma first_text_pad_row: "pad_row 3 r ! 0 = Str user \<Longrightarrow> first_text f r = user"
  by (cases r) (auto simp: pad_row_def first_text_def eval_nat_numeral)

lemma filter_first:
  "i < length xs \<Longrightarrow> P (xs ! i) \<Longrightarrow> \<forall>j < i. \<not> P (xs ! j) \<Longrightarrow> \<exists>rest. filter P xs = xs ! i # rest"
proof (induction xs arbitrary: i)
  case Nil
  then show ?case by simp
next
  case (Cons x xs)
  show ?case
  proof (cases i)
    case 0
    with Cons.prems show ?thesis by simp
  next
    case (Suc k)
    with Cons.prems have "k < length xs" "P (xs ! k)" "\<forall>j < k. \<not> P (xs ! j)" "\<not> P x"
      by auto
    with Cons.IH [of k] Suc show ?thesis by auto
  qed
qed

lemma goal_cells_set_cell:
  "pad_row 3 (set_cell (a # b # rest) 2 v) ! 0 = a \<and>
   pad_row 3 (set_cell (a # b # rest) 2 v) ! 1 = b \<and>
   pad_row 3 (set_cell (a # b # rest) 2 v) ! 2 = v"
  by (cases rest) (simp_all add: pad_row_def set_cell_def eval_nat_numeral)

lemma py_int_of_int: "py_int g (Num (of_int v)) = Inr v"
  by simp

lemma goal_read_back:
  assumes on: "online w" and user: "user \<noteq> ''User''"
    and ws: "settings_ws w = settings_header # body"
    and goal: "\<forall>m. find_in_column1 (show_number env) user body = Some m \<longrightarrow>
                 (\<exists>rest. body ! (m - 1) = Str user # Str ''Calorie Goal'' # rest)"
  shows "get_calorie_goal g
           (DataFrame_records (get_all_records (show_number env)
              (settings_ws (snd (set_calorie_goal env user x w))))) user = Inr x"
proof -
  let ?f = "show_number env"
  let ?P = "\<lambda>r. pad_row 3 r ! 0 = Str user \<and> pad_row 3 r ! 1 = Str ''Calorie Goal''"
  let ?v = "Num (of_int x)"
  have hdr: "first_text ?f settings_header \<noteq> user"
    using user by (simp add: first_text_def settings_header_def)
  have "\<exists>body'. body' \<noteq> [] \<and>
          settings_ws (snd (set_calorie_goal env user x w)) = settings_header # body' \<and>
          (\<exists>r rest. filter ?P body' = r # rest \<and> pad_row 3 r ! 2 = ?v)"
  proof (cases "find_in_column1 ?f user body")
    case None
    let ?new = "[Str user, Str ''Calorie Goal'', ?v]"
    have "find_in_column1 ?f user (settings_ws w) = None"
      using None hdr by (simp add: ws)
    then have w1: "settings_ws (snd (set_calorie_goal env user x w)) = settings_header # (body @ [?new])"
      using on by (simp add: set_calorie_goal_def append_row_def ws)
    have "\<forall>r \<in> set body. first_text ?f r \<noteq> user"
      using None by (simp add: find_in_column1_None)
    then have "\<forall>r \<in> set body. \<not> ?P r"
      using first_text_pad_row by blast
    then have "filter ?P body = []" by (simp add: filter_empty_conv)
    then have "filter ?P (body @ [?new]) = [?new]"
      by (simp add: pad_row_def)
    moreover have "pad_row 3 ?new ! 2 = ?v" by (simp add: pad_row_def)
    ultimately show ?thesis using w1 by blast
  next
    case (Some m)
    from find_in_column1_Some [OF Some]
    have m: "1 \<le> m" "m \<le> length body" "first_text ?f (body ! (m - 1)) = user"
      "\<forall>i < m - 1. first_text ?f (body ! i) \<noteq> user" by simp_all
    let ?old = "body ! (m - 1)"
    let ?body' = "body[m - 1 := set_cell ?old 2 ?v]"
    have lt: "m - 1 < length body" using m(1,2) by arith
    from goal Some obtain rest where old: "?old = Str user # Str ''Calorie Goal'' # rest"
      by blast
    have "find_in_column1 ?f user (settings_ws w) = Some (Suc m)"
      using Some hdr by (simp add: ws)
    then have "settings_ws (snd (set_calorie_goal env user x w)) =
               update_cell (settings_header # body) (Suc m) 3 ?v"
      using on by (simp add: set_calorie_goal_def ws)
    also have "\<dots> = settings_header # ?body'"
    proof -
      obtain k where k: "m = Suc k" using m(1) by (cases m) auto
      then show ?thesis using m(2) by (simp add: update_cell_def)
    qed
    finally have w1: "settings_ws (snd (set_calorie_goal env user x w)) = settings_header # ?body'" .
    have new: "?body' ! (m - 1) = set_cell ?old 2 ?v" using lt by simp
    have cells: "pad_row 3 (set_cell ?old 2 ?v) ! 0 = Str user"
      "pad_row 3 (set_cell ?old 2 ?v) ! 1 = Str ''Calorie Goal''"
      "pad_row 3 (set_cell ?old 2 ?v) ! 2 = ?v"
      unfolding old
      using goal_cells_set_cell [of "Str user" "Str ''Calorie Goal''" rest ?v]
      by blast+
    have before: "\<forall>j < m - 1. \<not> ?P (?body' ! j)"
    proof (intro allI impI)
      fix j assume j: "j < m - 1"
      then have "?body' ! j = body ! j" by simp
      moreover from j m(4) have "first_text ?f (body ! j) \<noteq> user" by simp
      ultimately show "\<not> ?P (?body' ! j)" using first_text_pad_row [of "body ! j" user ?f] by auto
    qed
    have "m - 1 < length ?body'" using lt by simp
    moreover have "?P (?body' ! (m - 1))" by (simp only: new cells)
    ultimately obtain more where "filter ?P ?body' = ?body' ! (m - 1) # more"
      using filter_first [of "m - 1" ?body' ?P] before by blast
    then have "filter ?P ?body' = set_cell ?old 2 ?v # more" by (simp only: new)
    moreover have "?body' \<noteq> []" using lt by auto
    ultimately show ?thesis using w1 cells(3) by blast
  qed
  then obtain body' r rest where
    ne: "body' \<noteq> []" and
    w1: "settings_ws (snd (set_calorie_goal env user x w)) = settings_header # body'" and
    flt: "filter ?P body' = r # rest" and val: "pad_row 3 r ! 2 = ?v"
    by blast
  show ?thesis
    unfolding w1 get_calorie_goal_sheet [OF ne] flt
    by (simp add: val)
qed

lemma save_goal_submit_online:
  assumes "online w"
  shows "data_cache (save_goal_submit env x w) = None"
    and "online (save_goal_submit env x w)"
    and "settings_ws (save_goal_submit env x w) =
         settings_ws (snd (set_calorie_goal env (ss_user w) x (w\<lparr>ss_calorie_goal := x\<rparr>)))"
  using assms
  by (simp_all add: save_goal_submit_def Let_def set_calorie_goal_def split: option.splits)

lemma fetch_from_store_settings:
  "fetch_from_store env w = Inr (l, s) \<Longrightarrow>
   s = DataFrame_records (get_all_records (show_number env) (settings_ws w))"
  by (auto simp: fetch_from_store_def Let_def split: if_splits sum.splits)

lemma fetch_all_data_miss:
  "data_cache w = None \<Longrightarrow> fetch_from_store env w = Inr frames \<Longrightarrow>
   fst (fetch_all_data env now w) = frames"
  by (simp add: fetch_all_data_def)

lemma get_calorie_goal_snapshot:
  assumes "settings_snapshot df"
  shows "get_calorie_goal g df user =
         (case goal_rows df user of [] \<Rightarrow> Inr 2000 | r # rs \<Rightarrow> py_int g (cell_at df r ''Value''))"
proof (cases "df_empty df")
  case True
  have "goal_rows df user = []"
  proof (cases "rows df = []")
    case True
    then show ?thesis by (simp add: goal_rows_def)
  next
    case False
    with \<open>df_empty df\<close> have "columns df = []" by (simp add: df_empty_def)
    then show ?thesis by (simp add: goal_rows_def cell_at_def)
  qed
  with True show ?thesis by (simp add: get_calorie_goal_def)
next
  case False
  with assms show ?thesis
    by (simp add: get_calorie_goal_def goal_rows_def settings_snapshot_def split: list.splits)
qed

lemma saved_goal_read_back:
  assumes on: "online w" and nu: "ss_user w \<noteq> ''User''"
    and ws: "settings_ws w = settings_header # body"
    and goal: "\<forall>m. find_in_column1 (show_number env) (ss_user w) body = Some m \<longrightarrow>
                 (\<exists>rest. body ! (m - 1) = Str (ss_user w) # Str ''Calorie Goal'' # rest)"
    and fetch: "fetch_from_store env (save_goal_submit env x w) = Inr (l, s)"
  shows "fst (fetch_all_data env now (save_goal_submit env x w)) = (l, s)"
    and "get_calorie_goal (py_int_text env) s (ss_user w) = Inr x"
proof -
  let ?w1 = "w\<lparr>ss_calorie_goal := x\<rparr>"
  have cache: "data_cache (save_goal_submit env x w) = None"
    by (rule save_goal_submit_online(1) [OF on])
  show "fst (fetch_all_data env now (save_goal_submit env x w)) = (l, s)"
    by (rule fetch_all_data_miss [OF cache fetch])
  have on1: "online ?w1" using on by simp
  have ws1: "settings_ws ?w1 = settings_header # body" using ws by simp
  have "s = DataFrame_records (get_all_records (show_number env)
              (settings_ws (snd (set_calorie_goal env (ss_user w) x ?w1))))"
    using fetch_from_store_settings [OF fetch] save_goal_submit_online(3) [OF on, of env x]
    by simp
  then show "get_calorie_goal (py_int_text env) s (ss_user w) = Inr x"
    using goal_read_back [OF on1 nu ws1 goal] by simp
qed

lemma fetch_after_save:
  assumes "online w" and "length (logs_ws w) = 1"
  shows "fetch_from_store env (save_goal_submit env x w) =
         Inr (DataFrame_empty,
              DataFrame_records (get_all_records (show_number env)
                (settings_ws (save_goal_submit env x w))))"
proof -
  have logs: "logs_ws (save_goal_submit env x w) = logs_ws w"
    by (simp add: save_goal_submit_def Let_def set_calorie_goal_def split: option.splits)
  from assms(2) obtain hdr where "logs_ws w = [hdr]"
    by (cases "logs_ws w") auto
  then have "DataFrame_records (get_all_records (show_number env) (logs_ws w)) = DataFrame_empty"
    by (simp add: get_all_records_def DataFrame_records_def)
  then show ?thesis
    using save_goal_submit_online(2) [OF assms(1), of env x]
    by (simp add: fetch_from_store_def Let_def logs df_empty_def DataFrame_empty_def)
qed

text \<open>
  Claim C5 on the code. On a Settings sheet whose first row for the user holds another
  setting, the save of the goal 1800 finds the user in the first column and writes 1800
  into the value cell of that row, whatever its setting: the \<open>Protein Goal\<close> of 100 is
  overwritten, the save reports success and the cache is cleared, and the goal read from
  the fresh snapshot is still the default 2000, not the 1800 that was saved. The read
  path and the append branch of the same function do match the setting: where the row
  found is the user's calorie-goal row, and for a user without a row (a row
  \<open>[user, Calorie Goal, 1800]\<close> is appended), the goal read back is 1800.
\<close>

theorem goal_lost_on_other_setting:
  "settings_ws (save_goal_submit sample_env 1800 sample_other_setting) =
     [settings_header, [Str ''Suyash'', Str ''Protein Goal'', Num 1800]] \<and>
   shown (save_goal_submit sample_env 1800 sample_other_setting) = [GoalSaved 1800] \<and>
   data_cache (save_goal_submit sample_env 1800 sample_other_setting) = None \<and>
   get_calorie_goal (py_int_text sample_env)
     (snd (fst (fetch_all_data sample_env 5 (save_goal_submit sample_env 1800 sample_other_setting))))
     ''Suyash'' = Inr 2000 \<and>
   get_calorie_goal (py_int_text sample_env)
     (snd (fst (fetch_all_data sample_env 5 (save_goal_submit sample_env 1800 sample_world))))
     ''Suyash'' = Inr 1800 \<and>
   settings_ws (save_goal_submit sample_env 1800 (sample_other_setting\<lparr>ss_user := ''Divyanshi''\<rparr>)) =
     [settings_header, [Str ''Suyash'', Str ''Protein Goal'', Num 100],
      [Str ''Divyanshi'', Str ''Calorie Goal'', Num 1800]] \<and>
   get_calorie_goal (py_int_text sample_env)
     (snd (fst (fetch_all_data sample_env 5
        (save_goal_submit sample_env 1800 (sample_other_setting\<lparr>ss_user := ''Divyanshi''\<rparr>)))))
     ''Divyanshi'' = Inr 1800"
proof -
  let ?w = "save_goal_submit sample_env 1800 sample_other_setting"
  let ?d = "sample_other_setting\<lparr>ss_user := ''Divyanshi''\<rparr>"
  have on: "online sample_other_setting"
    by (simp add: sample_other_setting_def sample_world_def)
  have len: "length (logs_ws sample_other_setting) = 1"
    by (simp add: sample_other_setting_def sample_world_def)
  have ws: "settings_ws ?w = [settings_header, [Str ''Suyash'', Str ''Protein Goal'', Num 1800]]"
    by (simp add: save_goal_submit_def Let_def set_calorie_goal_def sample_other_setting_def
        sample_world_def sample_env_def settings_header_def first_text_def update_cell_def
        set_cell_def)
  have msg: "shown ?w = [GoalSaved 1800]"
    by (simp add: save_goal_submit_def Let_def set_calorie_goal_def sample_other_setting_def
        sample_world_def sample_env_def settings_header_def first_text_def)
  have cache: "data_cache ?w = None" by (rule save_goal_submit_online(1) [OF on])
  have fetch: "fetch_from_store sample_env ?w =
      Inr (DataFrame_empty,
           DataFrame_records (get_all_records (show_number sample_env) (settings_ws ?w)))"
    by (rule fetch_after_save [OF on len])
  have "get_calorie_goal (py_int_text sample_env)
          (DataFrame_records (get_all_records (show_number sample_env) (settings_ws ?w))) ''Suyash'' =
        Inr 2000"
    unfolding ws
    by (simp add: get_calorie_goal_sheet pad_row_def)
  then have lost: "get_calorie_goal (py_int_text sample_env)
     (snd (fst (fetch_all_data sample_env 5 ?w))) ''Suyash'' = Inr 2000"
    using fetch_all_data_miss [OF cache fetch, of 5] by simp
  have kept: "get_calorie_goal (py_int_text sample_env)
     (snd (fst (fetch_all_data sample_env 5 (save_goal_submit sample_env 1800 sample_world))))
     ''Suyash'' = Inr 1800"
  proof -
    let ?body = "[[Str ''Suyash'', Str ''Calorie Goal'', Num 2000]]"
    have on': "online sample_world" and u: "ss_user sample_world = ''Suyash''"
      and ws': "settings_ws sample_world = settings_header # ?body"
      and len': "length (logs_ws sample_world) = 1"
      by (simp_all add: sample_world_def)
    have nu: "ss_user sample_world \<noteq> ''User''" by (simp add: u)
    have goal: "\<forall>m. find_in_column1 (show_number sample_env) (ss_user sample_world) ?body = Some m \<longrightarrow>
                 (\<exists>rest. ?body ! (m - 1) = Str (ss_user sample_world) # Str ''Calorie Goal'' # rest)"
      by (simp add: u first_text_def)
    note fs = fetch_after_save [OF on' len', where env = sample_env and x = 1800]
    from saved_goal_read_back(1) [OF on' nu ws' goal fs, where now = 5]
      saved_goal_read_back(2) [OF on' nu ws' goal fs]
    show ?thesis by (simp add: u)
  qed
  have on2: "online ?d" and len2: "length (logs_ws ?d) = 1"
    by (simp_all add: sample_other_setting_def sample_world_def)
  have ws2: "settings_ws (save_goal_submit sample_env 1800 ?d) =
     [settings_header, [Str ''Suyash'', Str ''Protein Goal'', Num 100],
      [Str ''Divyanshi'', Str ''Calorie Goal'', Num 1800]]"
    by (simp add: save_goal_submit_def Let_def set_calorie_goal_def sample_other_setting_def
        sample_world_def sample_env_def settings_header_def first_text_def append_row_def)
  have appended: "get_calorie_goal (py_int_text sample_env)
     (snd (fst (fetch_all_data sample_env 5 (save_goal_submit sample_env 1800 ?d))))
     ''Divyanshi'' = Inr 1800"
  proof -
    let ?body = "[[Str ''Suyash'', Str ''Protein Goal'', Num 100]]"
    have u: "ss_user ?d = ''Divyanshi''" by simp
    have nu: "ss_user ?d \<noteq> ''User''" by simp
    have ws': "settings_ws ?d = settings_header # ?body"
      by (simp add: sample_other_setting_def)
    have goal: "\<forall>m. find_in_column1 (show_number sample_env) (ss_user ?d) ?body = Some m \<longrightarrow>
                 (\<exists>rest. ?body ! (m - 1) = Str (ss_user ?d) # Str ''Calorie Goal'' # rest)"
      by (simp add: first_text_def)
    note fs = fetch_after_save [OF on2 len2, where env = sample_env and x = 1800]
    from saved_goal_read_back(1) [OF on2 nu ws' goal fs, where now = 5]
      saved_goal_read_back(2) [OF on2 nu ws' goal fs]
    show ?thesis by simp
  qed
  from ws msg cache lost kept ws2 appended show ?thesis by simp
qed

end
